theory Spec2Isabelle
  imports Main "HOL-Library.Multiset"
begin

section \<open>Data model (src/types.ts)\<close>

text \<open>
  The enums of \<^verbatim>\<open>types.ts\<close> become datatypes, the interfaces become records.
  Two interfaces both have fields \<^verbatim>\<open>id\<close> and \<^verbatim>\<open>name\<close>, so those fields carry the
  name of their interface as a prefix; every other field keeps its name.
  JavaScript numbers that are counted up from 0 (\<^verbatim>\<open>votesAgainst\<close>, the tally) are
  \<^typ>\<open>nat\<close>; the cooldowns, which are decremented, are \<^typ>\<open>int\<close>.
  A value of type \<^verbatim>\<open>string | null\<close> is a \<^typ>\<open>string option\<close>.
  The fields \<^verbatim>\<open>logs\<close> and \<^verbatim>\<open>moonPhase\<close> of \<^verbatim>\<open>GameState\<close> hold narration only
  (text obtained from the narrator service) and are left out of the state.
\<close>

datatype Role = VILLAGER | WEREWOLF | SEER | DOCTOR

datatype Phase =
  SETUP | NIGHT_INTRO | NIGHT_ACTION | DAY_INTRO | DAY_DISCUSSION | DAY_VOTING | GAME_OVER

datatype RuneType = SIGHT | SHIELD

record Rune =
  rune_id :: string
  rune_name :: string
  rune_type :: RuneType
  description :: string
  cooldown :: int
  currentCooldown :: int

record Player =
  player_id :: string
  player_name :: string
  role :: Role
  isAlive :: bool
  isBot :: bool
  avatar :: string
  votesAgainst :: nat
  runes :: "Rune list"

datatype Team = Villagers | Werewolves

record Targets =
  werewolf :: "string option"
  doctor :: "string option"
  seer :: "string option"

record GameState =
  players :: "Player list"
  phase :: Phase
  dayCount :: int
  winner :: "Team option"
  userPlayerId :: string
  targets :: Targets
  seerKnowledge :: "string \<rightharpoonup> Role"

record RuneAction =
  playerId :: string
  runeId :: string
  targetId :: string

record BotNightAction =
  werewolfKillTargetId :: "string option"
  doctorSaveTargetId :: "string option"
  seerCheckTargetId :: "string option"
  runeActions :: "RuneAction list"

record BotDayAction =
  day_playerId :: string
  chatMessage :: string
  voteTargetId :: "string option"

text \<open>
  The three pieces of React state that hold the user's pending choice:
  \<^verbatim>\<open>selectedActionTarget\<close>, \<^verbatim>\<open>activeActionType\<close> (\<^verbatim>\<open>'ROLE' | 'RUNE'\<close>) and
  \<^verbatim>\<open>selectedRuneId\<close>.
\<close>

datatype ActionType = ROLE | RUNE

record Selection =
  selectedActionTarget :: "string option"
  activeActionType :: ActionType
  selectedRuneId :: "string option"

text \<open>
  What a handler did: it returned at its first line without touching the state
  (\<open>Returned\<close>), it threw a \<^verbatim>\<open>TypeError\<close> before any state update, or it ran to its end
  and left the state \<open>Done s\<close>.
\<close>

datatype outcome = Returned | TypeError | Done GameState

text \<open>JavaScript truthiness of a \<^verbatim>\<open>string | null\<close>: neither \<^verbatim>\<open>null\<close> nor \<^verbatim>\<open>''\<close>.\<close>

fun truthy :: "string option \<Rightarrow> bool" where
  "truthy None = False"
| "truthy (Some s) = (s \<noteq> [])"

text \<open>\<^verbatim>\<open>if (x) xs.push(x)\<close> for a \<^verbatim>\<open>string | null\<close>: the list of what was pushed.\<close>

fun pushed :: "string option \<Rightarrow> string list" where
  "pushed None = []"
| "pushed (Some s) = (if s \<noteq> [] then [s] else [])"

definition initialState :: GameState where
  "initialState =
     \<lparr>players = [], phase = SETUP, dayCount = 0, winner = None, userPlayerId = [],
      targets = \<lparr>werewolf = None, doctor = None, seer = None\<rparr>,
      seerKnowledge = Map.empty\<rparr>"

text \<open>\<^verbatim>\<open>const userPlayer = state.players.find(p => p.id === state.userPlayerId)\<close>\<close>

definition userPlayer :: "GameState \<Rightarrow> Player option" where
  "userPlayer s = find (\<lambda>p. player_id p = userPlayerId s) (players s)"

section \<open>Win evaluation (App.tsx, checkWinCondition and setWinner)\<close>

definition aliveWerewolves :: "Player list \<Rightarrow> nat" where
  "aliveWerewolves currentPlayers =
     length (filter (\<lambda>p. isAlive p \<and> role p = WEREWOLF) currentPlayers)"

definition aliveVillagers :: "Player list \<Rightarrow> nat" where
  "aliveVillagers currentPlayers =
     length (filter (\<lambda>p. isAlive p \<and> role p \<noteq> WEREWOLF) currentPlayers)"

text \<open>
  \<^verbatim>\<open>checkWinCondition\<close> returns \<^verbatim>\<open>true\<close> after calling \<^verbatim>\<open>setWinner(team)\<close>, or
  \<^verbatim>\<open>false\<close>. The model returns the team that was passed to \<^verbatim>\<open>setWinner\<close>, or \<open>None\<close>
  for \<^verbatim>\<open>false\<close>; the caller applies \<open>setWinner\<close> to the state.
\<close>

definition checkWinCondition :: "Player list \<Rightarrow> Team option" where
  "checkWinCondition currentPlayers =
     (if aliveWerewolves currentPlayers = 0 then Some Villagers
      else if aliveVillagers currentPlayers \<le> aliveWerewolves currentPlayers then Some Werewolves
      else None)"

definition setWinner :: "Team \<Rightarrow> GameState \<Rightarrow> GameState" where
  "setWinner team s = s\<lparr>winner := Some team, phase := GAME_OVER\<rparr>"

section \<open>Cooldown ledger (App.tsx, runPhase and confirmNightAction)\<close>

text \<open>
  The night-intro branch of \<^verbatim>\<open>runPhase\<close> maps every rune of every player to
  \<^verbatim>\<open>{...r, currentCooldown: Math.max(0, r.currentCooldown - 1)}\<close>; two seconds later
  a timer moves the phase to \<^verbatim>\<open>NIGHT_ACTION\<close>. The model does both in one step.
\<close>

definition tickRune :: "Rune \<Rightarrow> Rune" where
  "tickRune r = r\<lparr>currentCooldown := max 0 (currentCooldown r - 1)\<rparr>"

definition tickDown :: "Player list \<Rightarrow> Player list" where
  "tickDown ps = map (\<lambda>p. p\<lparr>runes := map tickRune (runes p)\<rparr>) ps"

definition nightIntro :: "GameState \<Rightarrow> GameState" where
  "nightIntro s = s\<lparr>players := tickDown (players s), phase := NIGHT_ACTION\<rparr>"

text \<open>
  The update that \<^verbatim>\<open>confirmNightAction\<close> applies to a used rune,
  \<^verbatim>\<open>{...r, currentCooldown: r.cooldown + 1}\<close>, and the map over a player's runes,
  \<^verbatim>\<open>p.runes.map(r => r.id === usedId ? {...} : r)\<close>.
\<close>

definition consume :: "Rune \<Rightarrow> Rune" where
  "consume r = r\<lparr>currentCooldown := cooldown r + 1\<rparr>"

definition consumeRune :: "string \<Rightarrow> Rune list \<Rightarrow> Rune list" where
  "consumeRune usedId rs = map (\<lambda>r. if rune_id r = usedId then consume r else r) rs"

section \<open>Night resolution (App.tsx, confirmNightAction)\<close>

text \<open>
  The three lists the handler collects, and the id of the rune the user cast.
  \<^verbatim>\<open>botActions.runeActions?.forEach\<close> and \<^verbatim>\<open>botActions.runeActions?.find\<close> skip an
  undefined list, so an undefined \<^verbatim>\<open>runeActions\<close> is the empty list here.
\<close>

record Collected =
  kills :: "string list"
  saves :: "string list"
  reveals :: "string list"
  userUsedRuneId :: "string option"

definition findRune :: "Player list \<Rightarrow> RuneAction \<Rightarrow> Rune option" where
  "findRune ps ra =
     (case find (\<lambda>p. player_id p = playerId ra) ps of
        None \<Rightarrow> None
      | Some runePlayer \<Rightarrow> find (\<lambda>r. rune_id r = runeId ra) (runes runePlayer))"

definition botRuneSaves :: "Player list \<Rightarrow> RuneAction list \<Rightarrow> string list" where
  "botRuneSaves ps ras =
     concat (map (\<lambda>ra. case findRune ps ra of
                          None \<Rightarrow> []
                        | Some rune \<Rightarrow> if rune_type rune = SHIELD then [targetId ra] else []) ras)"

text \<open>Parts A and B of the handler: the oracle's role actions, then its rune actions.\<close>

definition botCollected :: "Player list \<Rightarrow> BotNightAction \<Rightarrow> Collected" where
  "botCollected ps botActions =
     \<lparr>kills = pushed (werewolfKillTargetId botActions),
      saves = pushed (doctorSaveTargetId botActions) @ botRuneSaves ps (runeActions botActions),
      reveals = [],
      userUsedRuneId = None\<rparr>"

text \<open>Part C: the user's action, by role or by rune.\<close>

definition userAction :: "Player \<Rightarrow> Selection \<Rightarrow> Collected \<Rightarrow> Collected" where
  "userAction user sel c =
     (case selectedActionTarget sel of
        None \<Rightarrow> c
      | Some t \<Rightarrow>
          if \<not> (isAlive user \<and> t \<noteq> []) then c
          else (case activeActionType sel of
                  ROLE \<Rightarrow>
                    c\<lparr>kills := kills c @ (if role user = WEREWOLF then [t] else []),
                      saves := saves c @ (if role user = DOCTOR then [t] else []),
                      reveals := reveals c @ (if role user = SEER then [t] else [])\<rparr>
                | RUNE \<Rightarrow>
                    if \<not> truthy (selectedRuneId sel) then c
                    else (case find (\<lambda>r. Some (rune_id r) = selectedRuneId sel) (runes user) of
                            None \<Rightarrow> c
                          | Some rune \<Rightarrow>
                              c\<lparr>userUsedRuneId := Some (rune_id rune),
                                saves := saves c @ (if rune_type rune = SHIELD then [t] else []),
                                reveals := reveals c @ (if rune_type rune = SIGHT then [t] else [])\<rparr>)))"

text \<open>
  Part D: \<^verbatim>\<open>reveals.forEach\<close>, writing \<^verbatim>\<open>newKnowledge[target.id] = target.role\<close> for
  every reveal target that \<^verbatim>\<open>find\<close> locates in the roster. \<^verbatim>\<open>newKnowledge\<close> is a plain
  object: the assignment of a role (a string) to the key \<^verbatim>\<open>__proto__\<close> is ignored.
\<close>

fun processReveals :: "Player list \<Rightarrow> string list \<Rightarrow> (string \<rightharpoonup> Role) \<Rightarrow> (string \<rightharpoonup> Role)" where
  "processReveals ps [] newKnowledge = newKnowledge"
| "processReveals ps (t # ts) newKnowledge =
     processReveals ps ts
       (case find (\<lambda>p. player_id p = t) ps of
          None \<Rightarrow> newKnowledge
        | Some target \<Rightarrow>
            if player_id target = ''__proto__'' then newKnowledge
            else newKnowledge(player_id target \<mapsto> role target))"

text \<open>
  Part E: the user's branch comes first (\<^verbatim>\<open>p.id === user.id && userUsedRuneId\<close>); any
  other player takes the first oracle rune action that names it.
\<close>

definition botCooldown :: "RuneAction list \<Rightarrow> Player \<Rightarrow> Player" where
  "botCooldown ras p =
     (case find (\<lambda>ba. playerId ba = player_id p) ras of
        None \<Rightarrow> p
      | Some botAction \<Rightarrow> p\<lparr>runes := consumeRune (runeId botAction) (runes p)\<rparr>)"

fun playerCooldown :: "Player \<Rightarrow> string option \<Rightarrow> RuneAction list \<Rightarrow> Player \<Rightarrow> Player" where
  "playerCooldown user None ras p = botCooldown ras p"
| "playerCooldown user (Some usedId) ras p =
     (if player_id p = player_id user \<and> usedId \<noteq> []
      then p\<lparr>runes := consumeRune usedId (runes p)\<rparr>
      else botCooldown ras p)"

text \<open>
  \<^verbatim>\<open>kills.length > 0 ? kills[0] : null\<close> and
  \<^verbatim>\<open>saves.includes(primaryWWTarget || '') ? primaryWWTarget : null\<close>.
\<close>

definition primaryWWTarget :: "string list \<Rightarrow> string option" where
  "primaryWWTarget ks = (case ks of [] \<Rightarrow> None | k # _ \<Rightarrow> Some k)"

definition primaryDocTarget :: "string list \<Rightarrow> string option \<Rightarrow> string option" where
  "primaryDocTarget svs ww =
     (if (case ww of None \<Rightarrow> [] | Some k \<Rightarrow> k) \<in> set svs then ww else None)"

definition collected :: "GameState \<Rightarrow> Player \<Rightarrow> Selection \<Rightarrow> BotNightAction \<Rightarrow> Collected" where
  "collected s user sel botActions = userAction user sel (botCollected (players s) botActions)"

text \<open>The state that the final \<^verbatim>\<open>setState\<close> of the handler leaves.\<close>

definition nightResolution ::
    "GameState \<Rightarrow> Player \<Rightarrow> Selection \<Rightarrow> BotNightAction \<Rightarrow> GameState" where
  "nightResolution s user sel botActions =
     s\<lparr>players :=
         map (playerCooldown user (userUsedRuneId (collected s user sel botActions))
                (runeActions botActions)) (players s),
       targets :=
         \<lparr>werewolf = primaryWWTarget (kills (collected s user sel botActions)),
          doctor = primaryDocTarget (saves (collected s user sel botActions))
                     (primaryWWTarget (kills (collected s user sel botActions))),
          seer = None\<rparr>,
       seerKnowledge :=
         processReveals (players s) (reveals (collected s user sel botActions))
           (seerKnowledge s),
       phase := DAY_INTRO\<rparr>"

text \<open>
  The handler as a whole. With no user in the roster the first line does not return
  (\<^verbatim>\<open>userPlayer?.isAlive\<close> is undefined) and \<^verbatim>\<open>user.isAlive\<close> throws before any state
  update.
\<close>

definition confirmNightAction :: "GameState \<Rightarrow> Selection \<Rightarrow> BotNightAction \<Rightarrow> outcome" where
  "confirmNightAction s sel botActions =
     (case userPlayer s of
        None \<Rightarrow> TypeError
      | Some user \<Rightarrow>
          if \<not> truthy (selectedActionTarget sel) \<and> isAlive user then Returned
          else Done (nightResolution s user sel botActions))"

section \<open>Death application (App.tsx, processNightResults)\<close>

text \<open>
  \<^verbatim>\<open>const victim = nextPlayers.find(p => p.id === killedId); if (victim) victim.isAlive = false\<close>:
  the first player with that id, if there is one, is marked dead.
\<close>

fun markDead :: "string \<Rightarrow> Player list \<Rightarrow> Player list" where
  "markDead k [] = []"
| "markDead k (p # ps) =
     (if player_id p = k then p\<lparr>isAlive := False\<rparr> # ps else p # markDead k ps)"

definition nightDeaths :: "Targets \<Rightarrow> Player list \<Rightarrow> Player list" where
  "nightDeaths t ps =
     (case werewolf t of
        None \<Rightarrow> ps
      | Some killedId \<Rightarrow>
          if killedId = [] then ps
          else if Some killedId = doctor t then ps
          else markDead killedId ps)"

definition announce :: "Team option \<Rightarrow> GameState \<Rightarrow> GameState" where
  "announce w s = (case w of None \<Rightarrow> s | Some team \<Rightarrow> setWinner team s)"

definition processNightResults :: "GameState \<Rightarrow> GameState" where
  "processNightResults s =
     announce (checkWinCondition (nightDeaths (targets s) (players s)))
       (s\<lparr>players := nightDeaths (targets s) (players s), phase := DAY_DISCUSSION\<rparr>)"

text \<open>\<^verbatim>\<open>runDayDiscussion\<close> only emits chat lines and then opens the vote.\<close>

definition runDayDiscussion :: "GameState \<Rightarrow> GameState" where
  "runDayDiscussion s = s\<lparr>phase := DAY_VOTING\<rparr>"

section \<open>Day voting (App.tsx, confirmVote)\<close>

text \<open>
  \<^verbatim>\<open>voteCounts\<close> is a plain object \<^verbatim>\<open>{}\<close> used as a dictionary: its own properties are
  kept here in the order of their creation, and what it inherits from
  \<^verbatim>\<open>Object.prototype\<close> is written out. A value of the dictionary is a number
  (\<open>Count\<close>) or a string that is no numeral (\<open>Text\<close>).

  In \<^verbatim>\<open>voteCounts[t] = (voteCounts[t] || 0) + 1\<close>, a key \<open>t\<close> that is no own property
  reads as \<^verbatim>\<open>undefined\<close> and is created with 1, unless \<open>t\<close> names a member of
  \<^verbatim>\<open>Object.prototype\<close>: a function member reads as that function, the sum is the
  string of its source text followed by \<^verbatim>\<open>1\<close>, and the key is created with that string;
  \<^verbatim>\<open>__proto__\<close> reads as the prototype object and the assignment of a string to it
  is ignored, so no property is created. An own number is incremented; an own string
  is truthy and stays a string.
\<close>

datatype tallyValue = Count nat | Text

definition prototypeFunctions :: "string list" where
  "prototypeFunctions =
     [''constructor'', ''__defineGetter__'', ''__defineSetter__'', ''hasOwnProperty'',
      ''__lookupGetter__'', ''__lookupSetter__'', ''isPrototypeOf'',
      ''propertyIsEnumerable'', ''toString'', ''valueOf'', ''toLocaleString'']"


fun increment :: "tallyValue \<Rightarrow> tallyValue" where
  "increment (Count c) = Count (c + 1)"
| "increment Text = Text"

fun addVote :: "string \<Rightarrow> (string \<times> tallyValue) list \<Rightarrow> (string \<times> tallyValue) list" where
  "addVote t [] =
     (if t = ''__proto__'' then []
      else if t \<in> set prototypeFunctions then [(t, Text)]
      else [(t, Count 1)])"
| "addVote t ((k, v) # vc) = (if k = t then (k, increment v) # vc else (k, v) # addVote t vc)"

text \<open>
  \<^verbatim>\<open>voteCounts[p.id] || 0\<close>, for a participant id that names no member of
  \<^verbatim>\<open>Object.prototype\<close> (the ids of a roster are values of \<^verbatim>\<open>uuidv4()\<close>): the own
  number, or 0. For an id that names such a member the source would leave a value
  that is no number in \<^verbatim>\<open>votesAgainst\<close>, which \<^typ>\<open>nat\<close> does not hold; the
  statements about a vote exclude such rosters (\<open>plainIds\<close>).
\<close>

definition countOf :: "(string \<times> tallyValue) list \<Rightarrow> string \<Rightarrow> nat" where
  "countOf vc k = (case map_of vc k of Some (Count c) \<Rightarrow> c | _ \<Rightarrow> 0)"

definition botVotes :: "BotDayAction list \<Rightarrow> (string \<times> tallyValue) list" where
  "botVotes botActions =
     foldl (\<lambda>vc action. case voteTargetId action of
                           None \<Rightarrow> vc
                         | Some t \<Rightarrow> if t \<noteq> [] then addVote t vc else vc) [] botActions"

definition userAlive :: "GameState \<Rightarrow> bool" where
  "userAlive s = (case userPlayer s of None \<Rightarrow> False | Some user \<Rightarrow> isAlive user)"

definition voteCounts ::
    "GameState \<Rightarrow> Selection \<Rightarrow> BotDayAction list \<Rightarrow> (string \<times> tallyValue) list" where
  "voteCounts s sel botActions =
     (case selectedActionTarget sel of
        None \<Rightarrow> botVotes botActions
      | Some t \<Rightarrow> if userAlive s \<and> t \<noteq> [] then addVote t (botVotes botActions)
                  else botVotes botActions)"

text \<open>
  \<^verbatim>\<open>Object.entries\<close> lists the keys that are array indices (canonical decimal
  numerals below \<open>2^32 - 1\<close>) in ascending numeric order, then every other key in
  the order of its creation.
\<close>

definition isDigit :: "char \<Rightarrow> bool" where
  "isDigit c = (c \<in> set ''0123456789'')"

definition digitsValue :: "string \<Rightarrow> int" where
  "digitsValue ds = foldl (\<lambda>n c. 10 * n + (of_char c - 48)) 0 ds"

definition isArrayIndex :: "string \<Rightarrow> bool" where
  "isArrayIndex k =
     (k \<noteq> [] \<and> list_all isDigit k \<and> (k = ''0'' \<or> hd k \<noteq> CHR ''0'') \<and>
      digitsValue k \<le> 4294967294)"

definition Object_entries :: "(string \<times> 'v) list \<Rightarrow> (string \<times> 'v) list" where
  "Object_entries vc =
     sort_key (\<lambda>e. digitsValue (fst e)) (filter (\<lambda>e. isArrayIndex (fst e)) vc) @
     filter (\<lambda>e. \<not> isArrayIndex (fst e)) vc"

text \<open>
  The body of the \<^verbatim>\<open>forEach\<close> over the entries, on the pair (eliminatedId, maxVotes).
  For a string \<^verbatim>\<open>count\<close>, \<^verbatim>\<open>count > maxVotes\<close> compares \<^verbatim>\<open>NaN\<close> and
  \<^verbatim>\<open>count === maxVotes\<close> compares a string with a number: both are false.
\<close>

fun countEntry ::
    "string option \<times> nat \<Rightarrow> string \<times> tallyValue \<Rightarrow> string option \<times> nat" where
  "countEntry (eliminatedId, maxVotes) (k, Count c) =
     (if maxVotes < c then (Some k, c)
      else if c = maxVotes then (None, maxVotes)
      else (eliminatedId, maxVotes))"
| "countEntry (eliminatedId, maxVotes) (k, Text) = (eliminatedId, maxVotes)"

definition pickEliminated :: "(string \<times> tallyValue) list \<Rightarrow> string option" where
  "pickEliminated es = fst (foldl countEntry (None, 0) es)"

definition displayVotes :: "(string \<times> tallyValue) list \<Rightarrow> Player list \<Rightarrow> Player list" where
  "displayVotes vc ps = map (\<lambda>p. p\<lparr>votesAgainst := countOf vc (player_id p)\<rparr>) ps"

definition execute :: "string option \<Rightarrow> Player list \<Rightarrow> Player list" where
  "execute eliminatedId ps =
     (case eliminatedId of
        None \<Rightarrow> ps
      | Some e \<Rightarrow> if e = [] then ps else markDead e ps)"

definition resetVotes :: "Player list \<Rightarrow> Player list" where
  "resetVotes ps = map (\<lambda>p. p\<lparr>votesAgainst := 0\<rparr>) ps"

text \<open>
  The array built for display, \<^verbatim>\<open>state.players.map(p => ({...p, votesAgainst: ...}))\<close>,
  is stored in the state by \<^verbatim>\<open>setState(prev => ({...prev, players: nextPlayers}))\<close>.
  \<^verbatim>\<open>eliminated.isAlive = false\<close> then writes into an object of that same array, so
  the stored roster is \<open>shownPlayers\<close>: the display roster with the executed player
  marked dead. The roster with the accumulators reset is a fresh array
  (\<open>resetVotes\<close>); it is stored only by the \<^verbatim>\<open>setState\<close> of the \<^verbatim>\<open>if (!win)\<close> branch.
  When there is a winner, \<^verbatim>\<open>setWinner\<close> spreads \<^verbatim>\<open>prev\<close> and the stored roster stays
  \<open>shownPlayers\<close>.
\<close>

definition shownPlayers :: "GameState \<Rightarrow> (string \<times> tallyValue) list \<Rightarrow> Player list" where
  "shownPlayers s vc = execute (pickEliminated (Object_entries vc)) (displayVotes vc (players s))"

definition dayResolution :: "GameState \<Rightarrow> (string \<times> tallyValue) list \<Rightarrow> GameState" where
  "dayResolution s vc =
     (case checkWinCondition (resetVotes (shownPlayers s vc)) of
        Some team \<Rightarrow> setWinner team (s\<lparr>players := shownPlayers s vc\<rparr>)
      | None \<Rightarrow>
          s\<lparr>players := resetVotes (shownPlayers s vc),
            phase := NIGHT_INTRO,
            dayCount := dayCount s + 1,
            targets := \<lparr>werewolf = None, doctor = None, seer = None\<rparr>\<rparr>)"

definition confirmVote :: "GameState \<Rightarrow> Selection \<Rightarrow> BotDayAction list \<Rightarrow> outcome" where
  "confirmVote s sel botActions =
     (if \<not> truthy (selectedActionTarget sel) \<and> userAlive s then Returned
      else Done (dayResolution s (voteCounts s sel botActions)))"

section \<open>Setup (App.tsx, startGame and resetGame; constants.ts)\<close>

text \<open>
  The random choices of \<^verbatim>\<open>startGame\<close> are its inputs here: \<open>uuidv4 n\<close> is what the
  \<open>n\<close>-th call of \<^verbatim>\<open>uuidv4()\<close> returns, \<open>runeChoice n\<close> the number drawn by the
  \<open>n\<close>-th call of \<^verbatim>\<open>getRandomRune\<close>, and \<open>roleOrder\<close> and \<open>seatOrder\<close> the ranks that
  the two \<^verbatim>\<open>sort(() => Math.random() - 0.5)\<close> calls give to the positions of their
  arrays. Whatever the ranks are, \<open>shuffle\<close> returns a permutation of its argument.
\<close>

record Random =
  uuidv4 :: "nat \<Rightarrow> string"
  runeChoice :: "nat \<Rightarrow> nat"
  roleOrder :: "nat \<Rightarrow> nat"
  seatOrder :: "nat \<Rightarrow> nat"

definition shuffle :: "(nat \<Rightarrow> nat) \<Rightarrow> 'a list \<Rightarrow> 'a list" where
  "shuffle rank xs = map snd (sort_key fst (zip (map rank [0..<length xs]) xs))"

definition AVATAR_URLS :: "string list" where
  "AVATAR_URLS =
     [''https://picsum.photos/seed/p1/200'', ''https://picsum.photos/seed/p2/200'',
      ''https://picsum.photos/seed/p3/200'', ''https://picsum.photos/seed/p4/200'',
      ''https://picsum.photos/seed/p5/200'', ''https://picsum.photos/seed/p6/200'',
      ''https://picsum.photos/seed/p7/200'', ''https://picsum.photos/seed/p8/200'']"

definition BOT_NAMES :: "string list" where
  "BOT_NAMES =
     [''Silas'', ''Elara'', ''Gideon'', ''Thorne'', ''Rowan'', ''Lysandra'', ''Kael'', ''Mara'']"

text \<open>A template of \<^verbatim>\<open>AVAILABLE_RUNES\<close> is (name, type, description, cooldown).\<close>

definition AVAILABLE_RUNES :: "(string \<times> RuneType \<times> string \<times> int) list" where
  "AVAILABLE_RUNES =
     [(''Lunar Sight'', SIGHT, ''Reveal the true role of a target.'', 3),
      (''Guardian Ward'', SHIELD, ''Protect a target from death for one night.'', 3),
      (''Shadow Veil'', SHIELD, ''Protect yourself from death for one night.'', 4)]"

text \<open>
  \<^verbatim>\<open>AVAILABLE_RUNES[Math.floor(Math.random() * AVAILABLE_RUNES.length)]\<close>: the index
  is below the length of the table, which \<open>mod\<close> expresses for an arbitrary draw.
\<close>

definition getRandomRune :: "nat \<Rightarrow> string \<Rightarrow> Rune" where
  "getRandomRune draw newId =
     (case AVAILABLE_RUNES ! (draw mod length AVAILABLE_RUNES) of
        (n, t, d, cd) \<Rightarrow>
          \<lparr>rune_id = newId, rune_name = n, rune_type = t, description = d,
           cooldown = cd, currentCooldown = 0\<rparr>)"

definition rolesPool :: "Role \<Rightarrow> Role list" where
  "rolesPool selectedRole =
     [selectedRole, WEREWOLF, SEER, DOCTOR, VILLAGER, VILLAGER, VILLAGER, WEREWOLF]"

definition botRoles :: "Role \<Rightarrow> Random \<Rightarrow> Role list" where
  "botRoles selectedRole rnd = shuffle (roleOrder rnd) (tl (rolesPool selectedRole))"

definition newUser :: "Role \<Rightarrow> Random \<Rightarrow> Player" where
  "newUser selectedRole rnd =
     \<lparr>player_id = uuidv4 rnd 0, player_name = ''You'', role = selectedRole, isAlive = True,
      isBot = False, avatar = AVATAR_URLS ! 0, votesAgainst = 0,
      runes = [getRandomRune (runeChoice rnd 0) (uuidv4 rnd 1)]\<rparr>"

definition newBot :: "Random \<Rightarrow> nat \<times> Role \<Rightarrow> Player" where
  "newBot rnd ir =
     \<lparr>player_id = uuidv4 rnd (2 * fst ir + 2), player_name = BOT_NAMES ! fst ir,
      role = snd ir, isAlive = True, isBot = True, avatar = AVATAR_URLS ! (fst ir + 1),
      votesAgainst = 0,
      runes = [getRandomRune (runeChoice rnd (fst ir + 1)) (uuidv4 rnd (2 * fst ir + 3))]\<rparr>"

definition bots :: "Role \<Rightarrow> Random \<Rightarrow> Player list" where
  "bots selectedRole rnd = map (newBot rnd) (enumerate 0 (botRoles selectedRole rnd))"

definition startGame :: "Role \<Rightarrow> Random \<Rightarrow> GameState" where
  "startGame selectedRole rnd =
     initialState
       \<lparr>players := shuffle (seatOrder rnd) (newUser selectedRole rnd # bots selectedRole rnd),
        userPlayerId := player_id (newUser selectedRole rnd),
        phase := NIGHT_INTRO,
        dayCount := 1\<rparr>"

definition resetGame :: "GameState \<Rightarrow> GameState" where
  "resetGame s = initialState"

section \<open>The phase controller\<close>

text \<open>
  One step of a session, each handler run from its first line to its last on the state
  it was called in. \<^verbatim>\<open>runPhase\<close> selects its branch by the phase; the start buttons
  are rendered in phase \<^verbatim>\<open>SETUP\<close> only, the two confirm buttons in phases
  \<^verbatim>\<open>NIGHT_ACTION\<close> and \<^verbatim>\<open>DAY_VOTING\<close> only. \<open>restart\<close> is \<^verbatim>\<open>resetGame\<close>, the
  "Play Again" button of the game-over screen.
\<close>

inductive step :: "GameState \<Rightarrow> GameState \<Rightarrow> bool" where
  start: "phase s = SETUP \<Longrightarrow> step s (startGame selectedRole rnd)"
| night_intro: "phase s = NIGHT_INTRO \<Longrightarrow> step s (nightIntro s)"
| night_action:
    "phase s = NIGHT_ACTION \<Longrightarrow> confirmNightAction s sel botActions = Done s' \<Longrightarrow> step s s'"
| day_intro: "phase s = DAY_INTRO \<Longrightarrow> step s (processNightResults s)"
| day_discussion: "phase s = DAY_DISCUSSION \<Longrightarrow> step s (runDayDiscussion s)"
| day_voting:
    "phase s = DAY_VOTING \<Longrightarrow> confirmVote s sel dayActions = Done s' \<Longrightarrow> step s s'"

inductive restart :: "GameState \<Rightarrow> GameState \<Rightarrow> bool" where
  reset: "winner s \<noteq> None \<Longrightarrow> restart s (resetGame s)"

inductive reachable :: "GameState \<Rightarrow> bool" where
  initial: "reachable initialState"
| after_step: "reachable s \<Longrightarrow> step s s' \<Longrightarrow> reachable s'"
| after_restart: "reachable s \<Longrightarrow> restart s s' \<Longrightarrow> reachable s'"

section \<open>Predicates used in the statements\<close>

text \<open>The bound that every rune of a roster keeps: \<open>0 \<le> currentCooldown \<le> cooldown + 1\<close>.\<close>

definition runeBounded :: "Rune \<Rightarrow> bool" where
  "runeBounded r \<longleftrightarrow> 0 \<le> currentCooldown r \<and> currentCooldown r \<le> cooldown r + 1 \<and> 0 \<le> cooldown r"

definition cooldownsBounded :: "Player list \<Rightarrow> bool" where
  "cooldownsBounded ps \<longleftrightarrow> list_all (\<lambda>p. list_all runeBounded (runes p)) ps"














text \<open>The role that \<^verbatim>\<open>find\<close> by id sees in a roster.\<close>

definition idRoles :: "Player list \<Rightarrow> (string \<times> Role) list" where
  "idRoles ps = map (\<lambda>p. (player_id p, role p)) ps"

section \<open>An example game\<close>

definition mkPlayer :: "string \<Rightarrow> Role \<Rightarrow> bool \<Rightarrow> bool \<Rightarrow> Rune list \<Rightarrow> Player" where
  "mkPlayer i r alive isbot rs =
     \<lparr>player_id = i, player_name = i, role = r, isAlive = alive, isBot = isbot,
      avatar = [], votesAgainst = 0, runes = rs\<rparr>"

text \<open>The draws of the example game: no position is moved by either shuffle.\<close>

definition exUuids :: "string list" where
  "exUuids = [''u0'', ''r0'', ''u1'', ''r1'', ''u2'', ''r2'', ''u3'', ''r3'', ''u4'', ''r4'',
              ''u5'', ''r5'', ''u6'', ''r6'', ''u7'', ''r7'']"

definition exRandom :: Random where
  "exRandom = \<lparr>uuidv4 = (\<lambda>n. exUuids ! n), runeChoice = (\<lambda>n. n),
               roleOrder = (\<lambda>n. n), seatOrder = (\<lambda>n. n)\<rparr>"

text \<open>
  The user plays the Seer as \<open>u0\<close>; the bots \<open>u1\<close> and \<open>u7\<close> are the werewolves.
  Night 1: the user checks \<open>u1\<close> by role, the oracle's werewolves kill \<open>u4\<close>.
  Day 1: three votes against \<open>u1\<close>, one against \<open>u5\<close>.
  Night 2: the user casts the rune \<open>r0\<close> on \<open>u7\<close>, the werewolf kills \<open>u5\<close>.
  Day 2: three votes against \<open>u7\<close>, one against \<open>u0\<close>.
\<close>

definition exUser :: Player where
  "exUser = newUser SEER exRandom"

definition ex0 :: GameState where
  "ex0 = startGame SEER exRandom"

definition ex1 :: GameState where
  "ex1 = nightIntro ex0"

definition exCheckU1 :: Selection where
  "exCheckU1 = \<lparr>selectedActionTarget = Some ''u1'', activeActionType = ROLE, selectedRuneId = None\<rparr>"

definition exKillU4 :: BotNightAction where
  "exKillU4 = \<lparr>werewolfKillTargetId = Some ''u4'', doctorSaveTargetId = None,
               seerCheckTargetId = None, runeActions = []\<rparr>"

definition ex2 :: GameState where
  "ex2 = nightResolution ex1 exUser exCheckU1 exKillU4"

definition ex3 :: GameState where
  "ex3 = processNightResults ex2"

definition ex4 :: GameState where
  "ex4 = runDayDiscussion ex3"

definition ballot :: "string \<Rightarrow> string option \<Rightarrow> BotDayAction" where
  "ballot voter t = \<lparr>day_playerId = voter, chatMessage = [], voteTargetId = t\<rparr>"

definition exVoteU1 :: Selection where
  "exVoteU1 = \<lparr>selectedActionTarget = Some ''u1'', activeActionType = ROLE, selectedRuneId = None\<rparr>"

definition exVoteU5 :: Selection where
  "exVoteU5 = \<lparr>selectedActionTarget = Some ''u5'', activeActionType = ROLE, selectedRuneId = None\<rparr>"

definition exBallots1 :: "BotDayAction list" where
  "exBallots1 = [ballot ''u1'' (Some ''u5''), ballot ''u2'' (Some ''u1''), ballot ''u3'' (Some ''u1'')]"

definition ex5 :: GameState where
  "ex5 = dayResolution ex4 (voteCounts ex4 exVoteU1 exBallots1)"

definition ex6 :: GameState where
  "ex6 = nightIntro ex5"

definition exCastU7 :: Selection where
  "exCastU7 = \<lparr>selectedActionTarget = Some ''u7'', activeActionType = RUNE,
                selectedRuneId = Some ''r0''\<rparr>"

definition exKillU5 :: BotNightAction where
  "exKillU5 = \<lparr>werewolfKillTargetId = Some ''u5'', doctorSaveTargetId = None,
               seerCheckTargetId = None, runeActions = []\<rparr>"

definition ex7 :: GameState where
  "ex7 = nightResolution ex6 exUser exCastU7 exKillU5"

definition ex8 :: GameState where
  "ex8 = processNightResults ex7"

definition ex9 :: GameState where
  "ex9 = runDayDiscussion ex8"

definition exVoteU7 :: Selection where
  "exVoteU7 = \<lparr>selectedActionTarget = Some ''u7'', activeActionType = ROLE, selectedRuneId = None\<rparr>"

definition exBallots2 :: "BotDayAction list" where
  "exBallots2 = [ballot ''u7'' (Some ''u0''), ballot ''u2'' (Some ''u7''), ballot ''u3'' (Some ''u7'')]"

definition ex10 :: GameState where
  "ex10 = dayResolution ex9 (voteCounts ex9 exVoteU7 exBallots2)"





text \<open>Night 2 again, with the oracle also having \<open>u2\<close> use its rune \<open>r2\<close> on itself.\<close>

definition exKillU5Rune :: BotNightAction where
  "exKillU5Rune = \<lparr>werewolfKillTargetId = Some ''u5'', doctorSaveTargetId = None,
                   seerCheckTargetId = None,
                   runeActions = [\<lparr>playerId = ''u2'', runeId = ''r2'', targetId = ''u2''\<rparr>]\<rparr>"

definition ex7Rune :: GameState where
  "ex7Rune = nightResolution ex6 exUser exCastU7 exKillU5Rune"

text \<open>Night 1 again, with the oracle's werewolves naming an id that no participant has.\<close>

definition exKillGhost :: BotNightAction where
  "exKillGhost = \<lparr>werewolfKillTargetId = Some ''ghost'', doctorSaveTargetId = None,
                  seerCheckTargetId = None, runeActions = []\<rparr>"

definition exGhostNight :: GameState where
  "exGhostNight = nightResolution ex1 exUser exCheckU1 exKillGhost"

section \<open>Properties of the win evaluation\<close>

text \<open>
  Claim C1. For every roster, \<open>checkWinCondition\<close> reports a Villagers win exactly when
  the number of alive participants with role WEREWOLF is 0, a Werewolves win exactly
  when that number is at least 1 and not less than the number of alive participants
  of any other role, and no winner exactly in the remaining case. The two numbers
  are counted on the roster itself, in the statement.
\<close>

theorem checkWinCondition_characterisation:
  "(checkWinCondition ps = Some Villagers \<longleftrightarrow>
      length (filter (\<lambda>p. isAlive p \<and> role p = WEREWOLF) ps) = 0) \<and>
   (checkWinCondition ps = Some Werewolves \<longleftrightarrow>
      1 \<le> length (filter (\<lambda>p. isAlive p \<and> role p = WEREWOLF) ps) \<and>
      length (filter (\<lambda>p. isAlive p \<and> role p \<noteq> WEREWOLF) ps)
        \<le> length (filter (\<lambda>p. isAlive p \<and> role p = WEREWOLF) ps)) \<and>
   (checkWinCondition ps = None \<longleftrightarrow>
      1 \<le> length (filter (\<lambda>p. isAlive p \<and> role p = WEREWOLF) ps) \<and>
      length (filter (\<lambda>p. isAlive p \<and> role p = WEREWOLF) ps)
        < length (filter (\<lambda>p. isAlive p \<and> role p \<noteq> WEREWOLF) ps)) \<and>
   (length (filter (\<lambda>p. isAlive p \<and> role p = WEREWOLF) ps) = 0 \<longleftrightarrow>
      list_all (\<lambda>p. \<not> (isAlive p \<and> role p = WEREWOLF)) ps)"
proof -
  have w: "aliveWerewolves ps = length (filter (\<lambda>p. isAlive p \<and> role p = WEREWOLF) ps)"
    by (simp add: aliveWerewolves_def)
  have v: "aliveVillagers ps = length (filter (\<lambda>p. isAlive p \<and> role p \<noteq> WEREWOLF) ps)"
    by (simp add: aliveVillagers_def)
  have none: "length (filter (\<lambda>p. isAlive p \<and> role p = WEREWOLF) ps) = 0 \<longleftrightarrow>
      list_all (\<lambda>p. \<not> (isAlive p \<and> role p = WEREWOLF)) ps"
    by (simp add: list_all_iff filter_empty_conv)
  have main: "(checkWinCondition ps = Some Villagers \<longleftrightarrow>
      length (filter (\<lambda>p. isAlive p \<and> role p = WEREWOLF) ps) = 0) \<and>
   (checkWinCondition ps = Some Werewolves \<longleftrightarrow>
      1 \<le> length (filter (\<lambda>p. isAlive p \<and> role p = WEREWOLF) ps) \<and>
      length (filter (\<lambda>p. isAlive p \<and> role p \<noteq> WEREWOLF) ps)
        \<le> length (filter (\<lambda>p. isAlive p \<and> role p = WEREWOLF) ps)) \<and>
   (checkWinCondition ps = None \<longleftrightarrow>
      1 \<le> length (filter (\<lambda>p. isAlive p \<and> role p = WEREWOLF) ps) \<and>
      length (filter (\<lambda>p. isAlive p \<and> role p = WEREWOLF) ps)
        < length (filter (\<lambda>p. isAlive p \<and> role p \<noteq> WEREWOLF) ps))"
    unfolding checkWinCondition_def w v by (auto simp: Suc_le_eq)
  show ?thesis
    by (rule conjI [OF main [THEN conjunct1]
          conjI [OF main [THEN conjunct2, THEN conjunct1]
            conjI [OF main [THEN conjunct2, THEN conjunct2] none]]])
qed

text \<open>
  Claim C10. When no alive participant is a werewolf the Villagers win, whatever the
  number of alive participants of other roles is: the test for zero werewolves comes
  before the parity test, so a roster with nobody alive is a Villagers win as well.
\<close>

theorem checkWinCondition_no_werewolves:
  "aliveWerewolves ps = 0 \<Longrightarrow> checkWinCondition ps = Some Villagers"
  unfolding checkWinCondition_def by simp

theorem checkWinCondition_no_werewolves_witness:
  "aliveWerewolves [mkPlayer ''a'' WEREWOLF False True [], mkPlayer ''b'' SEER False False []] = 0 \<and>
   aliveVillagers [mkPlayer ''a'' WEREWOLF False True [], mkPlayer ''b'' SEER False False []] = 0 \<and>
   checkWinCondition [mkPlayer ''a'' WEREWOLF False True [], mkPlayer ''b'' SEER False False []]
     = Some Villagers"
proof -
  have dead: "aliveWerewolves [mkPlayer ''a'' WEREWOLF False True [], mkPlayer ''b'' SEER False False []] = 0"
    by (simp add: aliveWerewolves_def mkPlayer_def)
  have nobody: "aliveVillagers [mkPlayer ''a'' WEREWOLF False True [], mkPlayer ''b'' SEER False False []] = 0"
    by (simp add: aliveVillagers_def mkPlayer_def)
  from dead nobody checkWinCondition_no_werewolves [OF dead] show ?thesis by simp
qed


section \<open>Facts about the death application\<close>

lemma markDead_ids: "map player_id (markDead k ps) = map player_id ps"
  by (induction ps) auto

lemma markDead_absent: "k \<notin> player_id ` set ps \<Longrightarrow> markDead k ps = ps"
  by (induction ps) auto

lemma markDead_distinct:
  "distinct (map player_id ps) \<Longrightarrow>
   markDead k ps = map (\<lambda>p. if player_id p = k then p\<lparr>isAlive := False\<rparr> else p) ps"
proof (induction ps)
  case Nil
  then show ?case by simp
next
  case (Cons p ps)
  show ?case
  proof (cases "player_id p = k")
    case True
    with Cons.prems have "k \<notin> player_id ` set ps" by auto
    then have "map (\<lambda>q. if player_id q = k then q\<lparr>isAlive := False\<rparr> else q) ps = ps"
      by (intro map_idI) auto
    with True show ?thesis by simp
  next
    case False
    with Cons show ?thesis by simp
  qed
qed



lemma players_announce: "players (announce w s) = players s"
  by (cases w) (simp_all add: announce_def setWinner_def)

lemma playerCooldown_frame:
  "playerCooldown user used ras p = p\<lparr>runes := runes (playerCooldown user used ras p)\<rparr>"
  by (cases used) (auto simp: botCooldown_def split: option.splits)

lemma playerCooldown_isAlive: "isAlive (playerCooldown user used ras p) = isAlive p"
  by (cases used) (auto simp: botCooldown_def split: option.splits)

lemma playerCooldown_id: "player_id (playerCooldown user used ras p) = player_id p"
  by (cases used) (auto simp: botCooldown_def split: option.splits)

lemma playerCooldown_role: "role (playerCooldown user used ras p) = role p"
  by (cases used) (auto simp: botCooldown_def split: option.splits)

lemma pushed_truthy: "k \<in> set (pushed x) \<Longrightarrow> k \<noteq> []"
  by (cases x) (auto split: if_splits)

lemma kills_truthy:
  "k \<in> set (kills (collected s user sel botActions)) \<Longrightarrow> k \<noteq> []"
  by (auto simp: collected_def userAction_def botCollected_def
           split: option.splits if_splits ActionType.splits dest: pushed_truthy)

lemma primaryWWTarget_truthy:
  "primaryWWTarget (kills (collected s user sel botActions)) = Some k \<Longrightarrow> k \<noteq> []"
  using kills_truthy [of k s user sel botActions]
  by (auto simp: primaryWWTarget_def split: list.splits)

lemma confirmNightAction_Done:
  assumes "confirmNightAction s sel botActions = Done s1" and "userPlayer s = Some user"
  shows "players s1 =
           map (playerCooldown user (userUsedRuneId (collected s user sel botActions))
                  (runeActions botActions)) (players s)"
    and "werewolf (targets s1) = primaryWWTarget (kills (collected s user sel botActions))"
    and "doctor (targets s1) =
           primaryDocTarget (saves (collected s user sel botActions))
             (primaryWWTarget (kills (collected s user sel botActions)))"
    and "seerKnowledge s1 =
           processReveals (players s) (reveals (collected s user sel botActions)) (seerKnowledge s)"
    and "phase s1 = DAY_INTRO"
    and "userPlayerId s1 = userPlayerId s"
  using assms by (auto simp: confirmNightAction_def nightResolution_def split: if_splits)

text \<open>
  Claim C2. Night resolution leaves every \<open>isAlive\<close> as it was and records as doctor
  target the primary kill target if that id is among the protect proposals, and nothing
  otherwise. At the day-intro transition nobody dies when there is no werewolf target
  or when it equals the doctor target; otherwise exactly the participant with the
  werewolf target's id is marked dead.
\<close>

theorem night_kill_applied_at_day_intro:
  assumes "confirmNightAction s sel botActions = Done s1"
    and "userPlayer s = Some user"
    and "distinct (map player_id (players s))"
  shows "map isAlive (players s1) = map isAlive (players s) \<and>
    werewolf (targets s1) = primaryWWTarget (kills (collected s user sel botActions)) \<and>
    doctor (targets s1) =
      (case werewolf (targets s1) of
         None \<Rightarrow> None
       | Some k \<Rightarrow> if k \<in> set (saves (collected s user sel botActions)) then Some k else None) \<and>
    (werewolf (targets s1) = None \<longrightarrow> players (processNightResults s1) = players s1) \<and>
    (werewolf (targets s1) = doctor (targets s1) \<longrightarrow>
       players (processNightResults s1) = players s1) \<and>
    (\<forall>k. werewolf (targets s1) = Some k \<and> doctor (targets s1) \<noteq> Some k \<longrightarrow>
       players (processNightResults s1) =
         map (\<lambda>p. if player_id p = k then p\<lparr>isAlive := False\<rparr> else p) (players s1))"
proof -
  note d = confirmNightAction_Done [OF assms(1,2)]
  have alive: "map isAlive (players s1) = map isAlive (players s)"
    by (simp add: d(1) playerCooldown_isAlive comp_def)
  have ids: "map player_id (players s1) = map player_id (players s)"
    by (simp add: d(1) playerCooldown_id comp_def)
  have doc: "doctor (targets s1) =
      (case werewolf (targets s1) of
         None \<Rightarrow> None
       | Some k \<Rightarrow> if k \<in> set (saves (collected s user sel botActions)) then Some k else None)"
    by (simp add: d(2,3) primaryDocTarget_def split: option.splits)
  have none: "werewolf (targets s1) = None \<longrightarrow> players (processNightResults s1) = players s1"
    by (simp add: processNightResults_def players_announce nightDeaths_def)
  have saved: "werewolf (targets s1) = doctor (targets s1) \<longrightarrow>
      players (processNightResults s1) = players s1"
    by (auto simp: processNightResults_def players_announce nightDeaths_def split: option.splits)
  have killed: "\<forall>k. werewolf (targets s1) = Some k \<and> doctor (targets s1) \<noteq> Some k \<longrightarrow>
      players (processNightResults s1) =
        map (\<lambda>p. if player_id p = k then p\<lparr>isAlive := False\<rparr> else p) (players s1)"
  proof (intro allI impI)
    fix k
    assume k: "werewolf (targets s1) = Some k \<and> doctor (targets s1) \<noteq> Some k"
    then have "k \<noteq> []"
      using primaryWWTarget_truthy [of s user sel botActions k] by (simp add: d(2))
    moreover from assms(3) ids have "distinct (map player_id (players s1))" by simp
    ultimately show "players (processNightResults s1) =
        map (\<lambda>p. if player_id p = k then p\<lparr>isAlive := False\<rparr> else p) (players s1)"
      using k by (auto simp: processNightResults_def players_announce nightDeaths_def
                        markDead_distinct)
  qed
  from alive d(2) doc none saved killed show ?thesis by blast
qed

section \<open>Facts about the tally\<close>





























section \<open>Facts about the day resolution\<close>








lemma confirmVote_Done:
  "confirmVote s sel botActions = Done s' \<Longrightarrow> s' = dayResolution s (voteCounts s sel botActions)"
  by (auto simp: confirmVote_def split: if_splits)

lemma constructor_votes_are_skipped:
  "voteCounts s \<lparr>selectedActionTarget = None, activeActionType = ROLE, selectedRuneId = None\<rparr>
     [\<lparr>day_playerId = ''a'', chatMessage = [], voteTargetId = Some ''constructor''\<rparr>,
      \<lparr>day_playerId = ''b'', chatMessage = [], voteTargetId = Some ''constructor''\<rparr>,
      \<lparr>day_playerId = ''c'', chatMessage = [], voteTargetId = Some ''__proto__''\<rparr>,
      \<lparr>day_playerId = ''d'', chatMessage = [], voteTargetId = Some ''u5''\<rparr>]
     = [(''constructor'', Text), (''u5'', Count 1)] \<and>
   pickEliminated (Object_entries [(''constructor'', Text), (''u5'', Count 1)]) = Some ''u5''"
  by code_simp


section \<open>The example game, step by step\<close>

lemma ex1_user: "userPlayer ex1 = Some exUser"
  by code_simp

lemma ex1_distinct: "distinct (map player_id (players ex1))"
  by code_simp

lemma ex1_night: "confirmNightAction ex1 exCheckU1 exKillU4 = Done ex2"
  by (simp add: confirmNightAction_def ex1_user ex2_def exCheckU1_def)


lemma ex4_vote: "confirmVote ex4 exVoteU1 exBallots1 = Done ex5"
  by (simp add: confirmVote_def ex5_def exVoteU1_def)

lemma ex6_user: "userPlayer ex6 = Some exUser"
  by code_simp

lemma ex6_night: "confirmNightAction ex6 exCastU7 exKillU5 = Done ex7"
  by (simp add: confirmNightAction_def ex6_user ex7_def exCastU7_def)

lemma ex9_vote: "confirmVote ex9 exVoteU7 exBallots2 = Done ex10"
  by (simp add: confirmVote_def ex10_def exVoteU7_def)

lemma ex_phases:
  "phase ex0 = NIGHT_INTRO" "phase ex1 = NIGHT_ACTION" "phase ex2 = DAY_INTRO"
  "phase ex3 = DAY_DISCUSSION" "phase ex4 = DAY_VOTING" "phase ex5 = NIGHT_INTRO"
  "phase ex6 = NIGHT_ACTION" "phase ex7 = DAY_INTRO" "phase ex8 = DAY_DISCUSSION"
  "phase ex9 = DAY_VOTING"
  by code_simp+

lemma reachable_ex1: "reachable ex1"
proof -
  have "step initialState ex0"
    unfolding ex0_def by (rule step.start) (simp add: initialState_def)
  with reachable.initial have "reachable ex0" by (rule reachable.after_step)
  moreover have "step ex0 ex1"
    unfolding ex1_def by (rule step.night_intro) (rule ex_phases)
  ultimately show ?thesis by (rule reachable.after_step)
qed

lemma reachable_ex2: "reachable ex2"
  using reachable_ex1 step.night_action [OF ex_phases(2) ex1_night]
  by (rule reachable.after_step)

lemma reachable_ex4: "reachable ex4"
proof -
  have "step ex2 ex3" unfolding ex3_def by (rule step.day_intro) (rule ex_phases)
  with reachable_ex2 have "reachable ex3" by (rule reachable.after_step)
  moreover have "step ex3 ex4" unfolding ex4_def by (rule step.day_discussion) (rule ex_phases)
  ultimately show ?thesis by (rule reachable.after_step)
qed

lemma reachable_ex6: "reachable ex6"
proof -
  from reachable_ex4 step.day_voting [OF ex_phases(5) ex4_vote] have "reachable ex5"
    by (rule reachable.after_step)
  moreover have "step ex5 ex6" unfolding ex6_def by (rule step.night_intro) (rule ex_phases)
  ultimately show ?thesis by (rule reachable.after_step)
qed

lemma reachable_ex7: "reachable ex7"
  using reachable_ex6 step.night_action [OF ex_phases(7) ex6_night]
  by (rule reachable.after_step)

lemma reachable_ex9: "reachable ex9"
proof -
  have "step ex7 ex8" unfolding ex8_def by (rule step.day_intro) (rule ex_phases)
  with reachable_ex7 have "reachable ex8" by (rule reachable.after_step)
  moreover have "step ex8 ex9" unfolding ex9_def by (rule step.day_discussion) (rule ex_phases)
  ultimately show ?thesis by (rule reachable.after_step)
qed

section \<open>Witnesses of the night and day theorems\<close>

theorem night_kill_applied_at_day_intro_witness:
  "confirmNightAction ex1 exCheckU1 exKillU4 = Done ex2 \<and>
   userPlayer ex1 = Some exUser \<and>
   distinct (map player_id (players ex1)) \<and>
   werewolf (targets ex2) = Some ''u4'' \<and>
   doctor (targets ex2) \<noteq> Some ''u4'' \<and>
   map isAlive (players (processNightResults ex2)) =
     [True, True, True, True, False, True, True, True]"
proof -
  note t = night_kill_applied_at_day_intro [OF ex1_night ex1_user ex1_distinct]
  have w: "werewolf (targets ex2) = Some ''u4''" by code_simp
  have d: "doctor (targets ex2) \<noteq> Some ''u4''" by code_simp
  from t [THEN conjunct2, THEN conjunct2, THEN conjunct2, THEN conjunct2, THEN conjunct2,
      THEN spec, THEN mp, OF conjI [OF w d]]
  have "map isAlive (players (processNightResults ex2)) =
      map isAlive (map (\<lambda>p. if player_id p = ''u4'' then p\<lparr>isAlive := False\<rparr> else p) (players ex2))"
    by (rule arg_cong)
  also have "\<dots> = [True, True, True, True, False, True, True, True]" by code_simp
  finally show ?thesis by (intro conjI ex1_night ex1_user ex1_distinct w d)
qed


text \<open>
  Claim C7, when the vote ends the game. The example game is won by the Villagers at
  the vote of day 2; the roster that the state then holds still carries the vote
  counts of that round (1 against \<open>u0\<close>, 3 against \<open>u7\<close>): the roster with the
  accumulators reset is stored by the other branch only.
\<close>

theorem confirmVote_win_keeps_votes:
  "reachable ex9 \<and> phase ex9 = DAY_VOTING \<and>
   confirmVote ex9 exVoteU7 exBallots2 = Done ex10 \<and>
   phase ex10 = GAME_OVER \<and> winner ex10 = Some Villagers \<and>
   map votesAgainst (players ex10) = [1, 0, 0, 0, 0, 0, 0, 3]"
proof -
  have "phase ex10 = GAME_OVER" by code_simp
  moreover have "winner ex10 = Some Villagers" by code_simp
  moreover have "map votesAgainst (players ex10) = [1, 0, 0, 0, 0, 0, 0, 3]" by code_simp
  ultimately show ?thesis by (intro conjI reachable_ex9 ex_phases ex9_vote)
qed


section \<open>Facts about the setup\<close>

lemma mset_shuffle: "mset (shuffle rank xs) = mset xs"
proof -
  have "mset (shuffle rank xs) = image_mset snd (mset (zip (map rank [0..<length xs]) xs))"
    by (simp add: shuffle_def)
  also have "\<dots> = mset (map snd (zip (map rank [0..<length xs]) xs))"
    by (simp only: mset_map)
  also have "map snd (zip (map rank [0..<length xs]) xs) = xs"
    by (rule map_snd_zip) simp
  finally show ?thesis .
qed

lemma set_shuffle: "set (shuffle rank xs) = set xs"
  using mset_shuffle [of rank xs] by (rule mset_eq_setD)

lemma length_shuffle: "length (shuffle rank xs) = length xs"
  using mset_shuffle [of rank xs] by (rule mset_eq_length)

lemma mset_map_shuffle: "mset (map f (shuffle rank xs)) = mset (map f xs)"
  by (simp add: mset_shuffle)

lemma distinct_map_shuffle: "distinct (map f (shuffle rank xs)) = distinct (map f xs)"
  using mset_map_shuffle [of f rank xs] by (rule mset_eq_imp_distinct_iff)

lemma mset_botRoles:
  "mset (botRoles selectedRole rnd) =
     {#WEREWOLF, SEER, DOCTOR, VILLAGER, VILLAGER, VILLAGER, WEREWOLF#}"
  by (simp add: botRoles_def mset_shuffle rolesPool_def)

lemma length_botRoles: "length (botRoles selectedRole rnd) = 7"
  by (simp add: botRoles_def length_shuffle rolesPool_def)

lemma roles_bots: "map role (bots selectedRole rnd) = botRoles selectedRole rnd"
proof -
  have "map role (bots selectedRole rnd) = map snd (enumerate 0 (botRoles selectedRole rnd))"
    by (simp add: bots_def newBot_def comp_def)
  then show ?thesis by simp
qed

lemma ids_bots:
  "map player_id (bots selectedRole rnd) = map (\<lambda>i. uuidv4 rnd (2 * i + 2)) [0..<7]"
proof -
  have "map player_id (bots selectedRole rnd) =
      map ((\<lambda>i. uuidv4 rnd (2 * i + 2)) \<circ> fst) (enumerate 0 (botRoles selectedRole rnd))"
    by (simp add: bots_def newBot_def comp_def)
  also have "\<dots> =
      map (\<lambda>i. uuidv4 rnd (2 * i + 2)) (map fst (enumerate 0 (botRoles selectedRole rnd)))"
    by (simp only: map_map)
  also have "map fst (enumerate 0 (botRoles selectedRole rnd)) = [0..<7]"
    by (simp add: length_botRoles)
  finally show ?thesis .
qed

lemma isBot_bots: "p \<in> set (bots selectedRole rnd) \<Longrightarrow> isBot p"
  by (auto simp: bots_def newBot_def)

lemma currentCooldown_getRandomRune: "currentCooldown (getRandomRune draw newId) = 0"
  by (simp add: getRandomRune_def split: prod.splits)

lemma runeBounded_getRandomRune: "runeBounded (getRandomRune draw newId)"
proof -
  have len: "length AVAILABLE_RUNES = 3" by (simp add: AVAILABLE_RUNES_def)
  have "draw mod 3 < 3" by simp
  then consider "draw mod 3 = 0" | "draw mod 3 = 1" | "draw mod 3 = 2" by linarith
  then show ?thesis
    by cases (simp_all add: getRandomRune_def len AVAILABLE_RUNES_def runeBounded_def)
qed

lemma mset_startGame:
  "mset (players (startGame selectedRole rnd)) =
     mset (newUser selectedRole rnd # bots selectedRole rnd)"
  by (simp add: startGame_def mset_shuffle)

lemma set_startGame:
  "set (players (startGame selectedRole rnd)) =
     insert (newUser selectedRole rnd) (set (bots selectedRole rnd))"
  by (simp add: startGame_def set_shuffle)

lemma roles_startGame:
  "mset (map role (players (startGame selectedRole rnd))) =
     {#selectedRole, WEREWOLF, SEER, DOCTOR, VILLAGER, VILLAGER, VILLAGER, WEREWOLF#}"
proof -
  have "mset (map role (players (startGame selectedRole rnd))) =
      mset (map role (newUser selectedRole rnd # bots selectedRole rnd))"
    by (simp add: startGame_def mset_map_shuffle del: mset_map)
  also have "\<dots> = add_mset selectedRole (mset (botRoles selectedRole rnd))"
    by (simp add: roles_bots newUser_def del: mset_map)
  finally show ?thesis by (simp add: mset_botRoles)
qed

lemma runes_startGame:
  assumes "p \<in> set (players (startGame selectedRole rnd))"
  shows "\<exists>r. runes p = [r] \<and> currentCooldown r = 0 \<and> runeBounded r"
proof -
  from assms have "p = newUser selectedRole rnd \<or> p \<in> set (bots selectedRole rnd)"
    by (simp add: set_startGame)
  then show ?thesis
    by (auto simp: newUser_def bots_def newBot_def currentCooldown_getRandomRune
          runeBounded_getRandomRune)
qed

lemma find_distinct:
  "distinct (map f xs) \<Longrightarrow> x \<in> set xs \<Longrightarrow> find (\<lambda>y. f y = f x) xs = Some x"
  by (induction xs) (auto simp: image_iff)

lemma ids_startGame:
  assumes "distinct (map (uuidv4 rnd) [0..<16])"
  shows "distinct (map player_id (players (startGame selectedRole rnd)))"
proof -
  have idx: "0 # map (\<lambda>i. 2 * i + 2) [0..<7] = [0, 2, 4, 6, 8, 10, 12, 14 :: nat]"
    by code_simp
  from assms have "inj_on (uuidv4 rnd) (set [0..<16])" by (simp add: distinct_map)
  moreover have "set [0, 2, 4, 6, 8, 10, 12, 14 :: nat] \<subseteq> set [0..<16]" by simp
  ultimately have "inj_on (uuidv4 rnd) (set [0, 2, 4, 6, 8, 10, 12, 14 :: nat])"
    by (rule inj_on_subset)
  then have "distinct (map (uuidv4 rnd) [0, 2, 4, 6, 8, 10, 12, 14])"
    by (simp only: distinct_map) simp
  also have "map (uuidv4 rnd) [0, 2, 4, 6, 8, 10, 12, 14] =
      map player_id (newUser selectedRole rnd # bots selectedRole rnd)"
    by (simp only: idx [symmetric]) (simp add: ids_bots newUser_def comp_def)
  finally show ?thesis by (simp add: startGame_def distinct_map_shuffle)
qed

lemma user_startGame:
  assumes "distinct (map (uuidv4 rnd) [0..<16])"
  shows "userPlayer (startGame selectedRole rnd) = Some (newUser selectedRole rnd)"
proof -
  have "newUser selectedRole rnd \<in> set (players (startGame selectedRole rnd))"
    by (simp add: set_startGame)
  from find_distinct [OF ids_startGame [OF assms] this]
  show ?thesis by (simp add: userPlayer_def startGame_def)
qed

lemma bots_startGame:
  "mset (filter isBot (players (startGame selectedRole rnd))) = mset (bots selectedRole rnd)"
proof -
  have "filter isBot (bots selectedRole rnd) = bots selectedRole rnd"
    by (rule filter_True) (simp add: isBot_bots)
  then have keep: "mset (filter isBot (bots selectedRole rnd)) = mset (bots selectedRole rnd)"
    by simp
  have "mset (filter isBot (players (startGame selectedRole rnd))) =
      filter_mset isBot (mset (players (startGame selectedRole rnd)))"
    by simp
  also have "\<dots> = filter_mset isBot (mset (newUser selectedRole rnd # bots selectedRole rnd))"
    by (simp only: mset_startGame)
  also have "\<dots> = filter_mset isBot (mset (bots selectedRole rnd))"
    by (simp add: newUser_def)
  also have "\<dots> = mset (filter isBot (bots selectedRole rnd))"
    by simp
  finally show ?thesis by (simp only: keep)
qed

text \<open>
  Claim C5, as the code has it. The pool is the chosen role followed by the seven fixed
  roles 2 Werewolves, 1 Seer, 1 Doctor and 3 Villagers: the user holds the chosen role
  and the bots hold a permutation of the seven others, so the roster is 1 Seer,
  1 Doctor, 2 Werewolves and 4 Villagers only when the user chooses Villager. The
  roster has 8 participants, each with exactly one rune whose currentCooldown is 0,
  and no two participants share an id when \<^verbatim>\<open>uuidv4\<close> returns pairwise different ids.
\<close>

theorem startGame_roster:
  assumes "distinct (map (uuidv4 rnd) [0..<16])"
  shows "length (players (startGame selectedRole rnd)) = 8 \<and>
    mset (map role (players (startGame selectedRole rnd))) =
      {#selectedRole, WEREWOLF, WEREWOLF, SEER, DOCTOR, VILLAGER, VILLAGER, VILLAGER#} \<and>
    userPlayer (startGame selectedRole rnd) = Some (newUser selectedRole rnd) \<and>
    role (newUser selectedRole rnd) = selectedRole \<and>
    \<not> isBot (newUser selectedRole rnd) \<and>
    mset (map role (filter isBot (players (startGame selectedRole rnd)))) =
      {#WEREWOLF, WEREWOLF, SEER, DOCTOR, VILLAGER, VILLAGER, VILLAGER#} \<and>
    distinct (map player_id (players (startGame selectedRole rnd))) \<and>
    (\<forall>p\<in>set (players (startGame selectedRole rnd)).
       \<exists>r. runes p = [r] \<and> currentCooldown r = 0)"
proof -
  have len: "length (players (startGame selectedRole rnd)) = 8"
    by (simp add: startGame_def length_shuffle bots_def length_botRoles)
  have roles: "mset (map role (players (startGame selectedRole rnd))) =
      {#selectedRole, WEREWOLF, WEREWOLF, SEER, DOCTOR, VILLAGER, VILLAGER, VILLAGER#}"
    using roles_startGame [of selectedRole rnd] by (simp add: add_mset_commute)
  have "mset (map role (filter isBot (players (startGame selectedRole rnd)))) =
      image_mset role (mset (filter isBot (players (startGame selectedRole rnd))))"
    by simp
  also have "\<dots> = mset (map role (bots selectedRole rnd))"
    by (simp only: bots_startGame mset_map)
  finally have botroles: "mset (map role (filter isBot (players (startGame selectedRole rnd)))) =
      {#WEREWOLF, WEREWOLF, SEER, DOCTOR, VILLAGER, VILLAGER, VILLAGER#}"
    by (simp add: roles_bots mset_botRoles)
  have runes1: "\<forall>p\<in>set (players (startGame selectedRole rnd)).
      \<exists>r. runes p = [r] \<and> currentCooldown r = 0"
    using runes_startGame [of _ selectedRole rnd] by blast
  have me: "role (newUser selectedRole rnd) = selectedRole" "\<not> isBot (newUser selectedRole rnd)"
    by (simp_all add: newUser_def)
  from len roles user_startGame [OF assms] me botroles ids_startGame [OF assms] runes1
  show ?thesis by (intro conjI)
qed

theorem startGame_roster_witness:
  "distinct (map (uuidv4 exRandom) [0..<16]) \<and>
   length (players (startGame VILLAGER exRandom)) = 8 \<and>
   mset (map role (players (startGame VILLAGER exRandom))) =
     {#SEER, DOCTOR, WEREWOLF, WEREWOLF, VILLAGER, VILLAGER, VILLAGER, VILLAGER#} \<and>
   distinct (map player_id (players (startGame VILLAGER exRandom)))"
proof -
  have d: "distinct (map (uuidv4 exRandom) [0..<16])" by code_simp
  from startGame_roster [OF d, of VILLAGER] d show ?thesis by simp
qed

theorem startGame_werewolf_counterexample:
  "length (filter (\<lambda>p. role p = WEREWOLF) (players (startGame WEREWOLF exRandom))) = 3 \<and>
   length (filter (\<lambda>p. role p = VILLAGER) (players (startGame WEREWOLF exRandom))) = 3 \<and>
   length (players (startGame WEREWOLF exRandom)) = 8"
  by code_simp

section \<open>Facts about the cooldown ledger\<close>

lemma tickRune_funpow:
  "0 \<le> currentCooldown r \<Longrightarrow>
   currentCooldown ((tickRune ^^ n) r) = max 0 (currentCooldown r - int n) \<and>
   cooldown ((tickRune ^^ n) r) = cooldown r"
proof (induction n)
  case 0
  then show ?case by simp
next
  case (Suc n)
  then show ?case by (simp add: tickRune_def)
qed

lemma tickRune_ready: "currentCooldown r = 0 \<Longrightarrow> tickRune r = r"
  by (simp add: tickRune_def)

lemma tickDown_ready:
  assumes "list_all (\<lambda>p. list_all (\<lambda>r. currentCooldown r = 0) (runes p)) ps"
  shows "tickDown ps = ps"
proof -
  have "p\<lparr>runes := map tickRune (runes p)\<rparr> = p" if "p \<in> set ps" for p
  proof -
    from assms that have "\<forall>r\<in>set (runes p). currentCooldown r = 0"
      by (simp add: list_all_iff)
    then have "map tickRune (runes p) = runes p"
      by (intro map_idI) (simp add: tickRune_ready)
    then show ?thesis by simp
  qed
  then show ?thesis unfolding tickDown_def by (intro map_idI)
qed

text \<open>
  Claim C6, as the code has it. For a ready rune: after the tick and the consume the
  remaining cooldown is cooldown + 1, so cooldown more ticks leave it at 1 and
  cooldown + 1 ticks bring it back to 0. Consuming a second time changes nothing (the
  cooldown stays at cooldown + 1). The tick leaves a roster unchanged when every
  rune in it is ready.
\<close>

theorem cooldown_cycle:
  assumes "currentCooldown r = 0" and "0 \<le> cooldown r"
  shows "currentCooldown ((tickRune ^^ nat (cooldown r + 1)) (consume (tickRune r))) = 0 \<and>
    currentCooldown ((tickRune ^^ nat (cooldown r)) (consume (tickRune r))) = 1 \<and>
    currentCooldown (consume (tickRune r)) = cooldown r + 1 \<and>
    consume (consume (tickRune r)) = consume (tickRune r) \<and>
    (\<forall>ps. list_all (\<lambda>p. list_all (\<lambda>r. currentCooldown r = 0) (runes p)) ps \<longrightarrow>
       tickDown ps = ps)"
proof -
  from assms(1) have t: "tickRune r = r" by (rule tickRune_ready)
  have c: "currentCooldown (consume r) = cooldown r + 1" "cooldown (consume r) = cooldown r"
    by (simp_all add: consume_def)
  from assms(2) have a: "currentCooldown ((tickRune ^^ nat (cooldown r + 1)) (consume r)) = 0"
    by (simp add: tickRune_funpow c)
  from assms(2) have b: "currentCooldown ((tickRune ^^ nat (cooldown r)) (consume r)) = 1"
    by (simp add: tickRune_funpow c)
  have twice: "consume (consume r) = consume r" by (simp add: consume_def)
  from a b c(1) twice tickDown_ready show ?thesis by (simp add: t)
qed

theorem cooldown_cycle_witness:
  "currentCooldown (getRandomRune 0 ''r0'') = 0 \<and> 0 \<le> cooldown (getRandomRune 0 ''r0'') \<and>
   cooldown (getRandomRune 0 ''r0'') = 3 \<and>
   currentCooldown ((tickRune ^^ 4) (consume (tickRune (getRandomRune 0 ''r0'')))) = 0 \<and>
   currentCooldown (consume (tickRune (getRandomRune 0 ''r0''))) = 4"
proof -
  have ready: "currentCooldown (getRandomRune 0 ''r0'') = 0" by code_simp
  have period: "cooldown (getRandomRune 0 ''r0'') = 3" by code_simp
  then have nonneg: "0 \<le> cooldown (getRandomRune 0 ''r0'')" by simp
  from cooldown_cycle [OF ready nonneg] ready period show ?thesis by simp
qed

theorem cooldown_cycle_counterexample:
  "currentCooldown (getRandomRune 0 ''r0'') = 0 \<and>
   cooldown (getRandomRune 0 ''r0'') = 3 \<and>
   currentCooldown ((tickRune ^^ 3) (consume (tickRune (getRandomRune 0 ''r0'')))) = 1 \<and>
   currentCooldown (consume (consume (tickRune (getRandomRune 0 ''r0'')))) = 4"
  by code_simp


section \<open>Invariants of a session\<close>

lemma cooldownsBounded_runes:
  assumes "map runes ps' = map runes ps"
  shows "cooldownsBounded ps' = cooldownsBounded ps"
proof -
  have expand: "cooldownsBounded qs = list_all (list_all runeBounded) (map runes qs)" for qs
    by (simp add: cooldownsBounded_def list_all_iff)
  show ?thesis by (simp only: expand assms)
qed

lemma runes_markDead: "map runes (markDead k ps) = map runes ps"
  by (induction ps) auto

lemma runes_nightDeaths: "map runes (nightDeaths t ps) = map runes ps"
  by (simp add: nightDeaths_def runes_markDead split: option.splits)

lemma runes_shownPlayers: "map runes (shownPlayers s vc) = map runes (players s)"
proof -
  have "map runes (displayVotes vc (players s)) = map runes (players s)"
    by (simp add: displayVotes_def comp_def)
  then show ?thesis
    by (simp add: shownPlayers_def execute_def runes_markDead split: option.splits)
qed

lemma runes_dayResolution: "map runes (players (dayResolution s vc)) = map runes (players s)"
proof -
  have "map runes (resetVotes (shownPlayers s vc)) = map runes (shownPlayers s vc)"
    by (simp add: resetVotes_def comp_def)
  then show ?thesis
    by (simp add: dayResolution_def setWinner_def runes_shownPlayers split: option.splits)
qed

lemma runeBounded_tickRune: "runeBounded r \<Longrightarrow> runeBounded (tickRune r)"
  by (auto simp: runeBounded_def tickRune_def)

lemma runeBounded_consume: "runeBounded r \<Longrightarrow> runeBounded (consume r)"
  by (simp add: runeBounded_def consume_def)

lemma cooldownsBounded_tickDown: "cooldownsBounded ps \<Longrightarrow> cooldownsBounded (tickDown ps)"
  by (auto simp: cooldownsBounded_def tickDown_def list_all_iff runeBounded_tickRune)

lemma bounded_consumeRune: "list_all runeBounded rs \<Longrightarrow> list_all runeBounded (consumeRune x rs)"
  by (auto simp: consumeRune_def list_all_iff runeBounded_consume)

lemma bounded_playerCooldown:
  "list_all runeBounded (runes p) \<Longrightarrow>
   list_all runeBounded (runes (playerCooldown user used ras p))"
  by (cases used) (auto simp: botCooldown_def bounded_consumeRune split: option.splits)

lemma cooldownsBounded_iff:
  "cooldownsBounded ps \<longleftrightarrow> (\<forall>p\<in>set ps. list_all runeBounded (runes p))"
  by (simp add: cooldownsBounded_def list_all_iff [where P = "\<lambda>p. list_all runeBounded (runes p)"])

lemma cooldownsBounded_night:
  "cooldownsBounded ps \<Longrightarrow> cooldownsBounded (map (playerCooldown user used ras) ps)"
  by (simp add: cooldownsBounded_iff bounded_playerCooldown)

lemma cooldownsBounded_startGame: "cooldownsBounded (players (startGame selectedRole rnd))"
  unfolding cooldownsBounded_def list_all_iff
proof
  fix p assume "p \<in> set (players (startGame selectedRole rnd))"
  from runes_startGame [OF this] show "\<forall>r\<in>set (runes p). runeBounded r" by auto
qed

lemma confirmNightAction_DoneE:
  assumes "confirmNightAction s sel botActions = Done s'"
  obtains user where "userPlayer s = Some user" and "s' = nightResolution s user sel botActions"
  using assms by (auto simp: confirmNightAction_def split: option.splits if_splits)

lemma step_cooldownsBounded:
  assumes "step s s'" and "cooldownsBounded (players s)"
  shows "cooldownsBounded (players s')"
  using assms(1)
proof cases
  case (start selectedRole rnd)
  then show ?thesis by (simp add: cooldownsBounded_startGame)
next
  case night_intro
  with assms(2) show ?thesis by (simp add: nightIntro_def cooldownsBounded_tickDown)
next
  case (night_action sel botActions)
  from night_action(2) obtain user where "s' = nightResolution s user sel botActions"
    by (rule confirmNightAction_DoneE)
  with assms(2) show ?thesis by (simp add: nightResolution_def cooldownsBounded_night)
next
  case day_intro
  have "cooldownsBounded (nightDeaths (targets s) (players s)) = cooldownsBounded (players s)"
    by (rule cooldownsBounded_runes) (rule runes_nightDeaths)
  with assms(2) day_intro show ?thesis
    by (simp add: processNightResults_def players_announce)
next
  case day_discussion
  with assms(2) show ?thesis by (simp add: runDayDiscussion_def)
next
  case (day_voting sel dayActions)
  from day_voting(2) have "s' = dayResolution s (voteCounts s sel dayActions)"
    by (rule confirmVote_Done)
  moreover have "cooldownsBounded (players (dayResolution s (voteCounts s sel dayActions))) =
      cooldownsBounded (players s)"
    by (rule cooldownsBounded_runes) (rule runes_dayResolution)
  ultimately show ?thesis using assms(2) by simp
qed

lemma reachable_cooldownsBounded: "reachable s \<Longrightarrow> cooldownsBounded (players s)"
proof (induction rule: reachable.induct)
  case initial
  then show ?case by (simp add: initialState_def cooldownsBounded_def)
next
  case (after_step s s')
  then show ?case by (simp add: step_cooldownsBounded)
next
  case (after_restart s s')
  from after_restart(2) show ?case
    by cases (simp add: resetGame_def initialState_def cooldownsBounded_def)
qed

lemma consumed_by_id:
  assumes "r \<in> set (consumeRune x rs)" and "rune_id r = x"
  shows "currentCooldown r = cooldown r + 1"
proof -
  from assms(1) have "r \<in> (\<lambda>r. if rune_id r = x then consume r else r) ` set rs"
    by (simp only: consumeRune_def set_map)
  then obtain r0 where r0: "r = (if rune_id r0 = x then consume r0 else r0)"
    by (rule imageE)
  show ?thesis
  proof (cases "rune_id r0 = x")
    case True
    with r0 have "r = consume r0" by simp
    then show ?thesis by (simp add: consume_def)
  next
    case False
    with r0 have "r = r0" by simp
    with assms(2) False show ?thesis by simp
  qed
qed

lemma userUsedRuneId_collected:
  assumes "isAlive user" and "selectedActionTarget sel = Some t" and "t \<noteq> []"
    and "activeActionType sel = RUNE" and "selectedRuneId sel = Some x" and "x \<noteq> []"
    and "x \<in> rune_id ` set (runes user)"
  shows "userUsedRuneId (collected s user sel botActions) = Some x"
proof -
  from assms(7) have "find (\<lambda>r. rune_id r = x) (runes user) \<noteq> None"
    by (auto simp: find_None_iff)
  then obtain r0 where f: "find (\<lambda>r. rune_id r = x) (runes user) = Some r0" by auto
  then have "rune_id r0 = x" by (auto simp: find_Some_iff)
  with f assms(1-6) show ?thesis by (simp add: collected_def userAction_def)
qed

lemma user_rune_consumed:
  assumes "confirmNightAction s sel botActions = Done s'" and "userPlayer s = Some user"
    and "userUsedRuneId (collected s user sel botActions) = Some x" and "x \<noteq> []"
    and "p \<in> set (players s')" and "player_id p = player_id user"
    and "r \<in> set (runes p)" and "rune_id r = x"
  shows "currentCooldown r = cooldown r + 1"
proof -
  define f where "f = playerCooldown user (Some x) (runeActions botActions)"
  from confirmNightAction_Done(1) [OF assms(1,2)] assms(3)
  have "players s' = map f (players s)" by (simp only: f_def)
  with assms(5) have "p \<in> f ` set (players s)" by simp
  then obtain p0 where p0: "p = f p0" by blast
  then have "player_id p0 = player_id user"
    using assms(6) by (simp add: f_def playerCooldown_id del: playerCooldown.simps)
  with assms(4) have "f p0 = p0\<lparr>runes := consumeRune x (runes p0)\<rparr>"
    by (simp add: f_def)
  with p0 have "runes p = consumeRune x (runes p0)" by simp
  with assms(7) have "r \<in> set (consumeRune x (runes p0))" by simp
  from consumed_by_id [OF this assms(8)] show ?thesis .
qed

lemma bot_rune_consumed:
  assumes "confirmNightAction s sel botActions = Done s'" and "userPlayer s = Some user"
    and "p \<in> set (players s')"
    and "player_id p \<noteq> player_id user \<or> userUsedRuneId (collected s user sel botActions) = None"
    and "find (\<lambda>a. playerId a = player_id p) (runeActions botActions) = Some ba"
    and "r \<in> set (runes p)" and "rune_id r = runeId ba"
  shows "currentCooldown r = cooldown r + 1"
proof -
  define used where "used = userUsedRuneId (collected s user sel botActions)"
  define f where "f = playerCooldown user used (runeActions botActions)"
  from confirmNightAction_Done(1) [OF assms(1,2)]
  have "players s' = map f (players s)" by (simp only: f_def used_def)
  with assms(3) have "p \<in> f ` set (players s)" by simp
  then obtain p0 where p0: "p = f p0" by blast
  then have same: "player_id p0 = player_id p"
    by (simp add: f_def playerCooldown_id del: playerCooldown.simps)
  have fp0: "f p0 = botCooldown (runeActions botActions) p0"
  proof (cases used)
    case None
    then show ?thesis by (simp add: f_def)
  next
    case (Some u)
    with assms(4) have "player_id p \<noteq> player_id user" by (simp add: used_def)
    with same have "player_id p0 \<noteq> player_id user" by simp
    with Some show ?thesis by (simp add: f_def)
  qed
  from assms(5) have "find (\<lambda>a. playerId a = player_id p0) (runeActions botActions) = Some ba"
    by (simp only: same [symmetric])
  then have "botCooldown (runeActions botActions) p0 =
      p0\<lparr>runes := consumeRune (runeId ba) (runes p0)\<rparr>"
    by (simp add: botCooldown_def)
  then have "runes p = consumeRune (runeId ba) (runes p0)"
    by (simp add: p0 fp0)
  with assms(6) have "r \<in> set (consumeRune (runeId ba) (runes p0))" by simp
  from consumed_by_id [OF this assms(7)] show ?thesis .
qed

text \<open>
  Claim C4, as the code has it. In every reachable state every rune's remaining
  cooldown lies between 0 and cooldown + 1. A night-resolution pass sets the remaining
  cooldown of a rune whose use it finalises to cooldown + 1: that is the rune the user
  cast (selected among the user's runes, with a target, the user being alive), and for
  a participant other than the user, or for the user when no rune was cast, every rune
  of the participant that the first oracle rune action naming the participant names.
\<close>

theorem consumed_rune_cooldown:
  assumes "reachable s"
  shows "(\<forall>p\<in>set (players s). \<forall>r\<in>set (runes p).
            0 \<le> currentCooldown r \<and> currentCooldown r \<le> cooldown r + 1) \<and>
    (\<forall>sel botActions s' user t x p r.
       confirmNightAction s sel botActions = Done s' \<and> userPlayer s = Some user \<and>
       isAlive user \<and> selectedActionTarget sel = Some t \<and> t \<noteq> [] \<and>
       activeActionType sel = RUNE \<and> selectedRuneId sel = Some x \<and> x \<noteq> [] \<and>
       x \<in> rune_id ` set (runes user) \<and>
       p \<in> set (players s') \<and> player_id p = player_id user \<and>
       r \<in> set (runes p) \<and> rune_id r = x
       \<longrightarrow> currentCooldown r = cooldown r + 1) \<and>
    (\<forall>sel botActions s' user ba p r.
       confirmNightAction s sel botActions = Done s' \<and> userPlayer s = Some user \<and>
       p \<in> set (players s') \<and>
       (player_id p \<noteq> player_id user \<or>
        userUsedRuneId (collected s user sel botActions) = None) \<and>
       find (\<lambda>a. playerId a = player_id p) (runeActions botActions) = Some ba \<and>
       r \<in> set (runes p) \<and> rune_id r = runeId ba
       \<longrightarrow> currentCooldown r = cooldown r + 1)"
proof (intro conjI)
  from reachable_cooldownsBounded [OF assms]
  show "\<forall>p\<in>set (players s). \<forall>r\<in>set (runes p).
      0 \<le> currentCooldown r \<and> currentCooldown r \<le> cooldown r + 1"
    by (simp add: cooldownsBounded_def list_all_iff runeBounded_def)
next
  show "\<forall>sel botActions s' user t x p r.
       confirmNightAction s sel botActions = Done s' \<and> userPlayer s = Some user \<and>
       isAlive user \<and> selectedActionTarget sel = Some t \<and> t \<noteq> [] \<and>
       activeActionType sel = RUNE \<and> selectedRuneId sel = Some x \<and> x \<noteq> [] \<and>
       x \<in> rune_id ` set (runes user) \<and>
       p \<in> set (players s') \<and> player_id p = player_id user \<and>
       r \<in> set (runes p) \<and> rune_id r = x
       \<longrightarrow> currentCooldown r = cooldown r + 1"
  proof (intro allI impI, elim conjE)
    fix sel botActions s' user t x p r
    assume a: "confirmNightAction s sel botActions = Done s'" "userPlayer s = Some user"
      "isAlive user" "selectedActionTarget sel = Some t" "t \<noteq> []"
      "activeActionType sel = RUNE" "selectedRuneId sel = Some x" "x \<noteq> []"
      "x \<in> rune_id ` set (runes user)"
      "p \<in> set (players s')" "player_id p = player_id user"
      "r \<in> set (runes p)" "rune_id r = x"
    from a(3-9) have "userUsedRuneId (collected s user sel botActions) = Some x"
      by (rule userUsedRuneId_collected)
    from user_rune_consumed [OF a(1,2) this a(8) a(10-13)]
    show "currentCooldown r = cooldown r + 1" .
  qed
next
  show "\<forall>sel botActions s' user ba p r.
       confirmNightAction s sel botActions = Done s' \<and> userPlayer s = Some user \<and>
       p \<in> set (players s') \<and>
       (player_id p \<noteq> player_id user \<or>
        userUsedRuneId (collected s user sel botActions) = None) \<and>
       find (\<lambda>a. playerId a = player_id p) (runeActions botActions) = Some ba \<and>
       r \<in> set (runes p) \<and> rune_id r = runeId ba
       \<longrightarrow> currentCooldown r = cooldown r + 1"
  proof (intro allI impI, elim conjE)
    fix sel botActions s' user ba p r
    assume a: "confirmNightAction s sel botActions = Done s'" "userPlayer s = Some user"
      "p \<in> set (players s')"
      "player_id p \<noteq> player_id user \<or>
        userUsedRuneId (collected s user sel botActions) = None"
      "find (\<lambda>a. playerId a = player_id p) (runeActions botActions) = Some ba"
      "r \<in> set (runes p)" "rune_id r = runeId ba"
    from bot_rune_consumed [OF a] show "currentCooldown r = cooldown r + 1" .
  qed
qed

lemma ex6_night_rune: "confirmNightAction ex6 exCastU7 exKillU5Rune = Done ex7Rune"
  by (simp add: confirmNightAction_def ex6_user ex7Rune_def exCastU7_def)

theorem consumed_rune_cooldown_witness:
  "reachable ex6 \<and>
   confirmNightAction ex6 exCastU7 exKillU5Rune = Done ex7Rune \<and>
   userPlayer ex6 = Some exUser \<and>
   map (\<lambda>p. (player_id p, map rune_id (runes p))) (players ex7Rune) =
     [(''u0'', [''r0'']), (''u1'', [''r1'']), (''u2'', [''r2'']), (''u3'', [''r3'']),
      (''u4'', [''r4'']), (''u5'', [''r5'']), (''u6'', [''r6'']), (''u7'', [''r7''])] \<and>
   map (\<lambda>p. map cooldown (runes p)) (players ex7Rune) =
     [[3], [3], [4], [3], [3], [4], [3], [3]] \<and>
   map (\<lambda>p. map currentCooldown (runes p)) (players ex6) =
     [[0], [0], [0], [0], [0], [0], [0], [0]] \<and>
   map (\<lambda>p. map currentCooldown (runes p)) (players ex7Rune) =
     [[4], [0], [5], [0], [0], [0], [0], [0]] \<and>
   currentCooldown (hd (runes (players ex7Rune ! 0))) =
     cooldown (hd (runes (players ex7Rune ! 0))) + 1 \<and>
   currentCooldown (hd (runes (players ex7Rune ! 2))) =
     cooldown (hd (runes (players ex7Rune ! 2))) + 1"
proof -
  note t = consumed_rune_cooldown [OF reachable_ex6]
  have ids: "map (\<lambda>p. (player_id p, map rune_id (runes p))) (players ex7Rune) =
     [(''u0'', [''r0'']), (''u1'', [''r1'']), (''u2'', [''r2'']), (''u3'', [''r3'']),
      (''u4'', [''r4'']), (''u5'', [''r5'']), (''u6'', [''r6'']), (''u7'', [''r7''])]"
    by code_simp
  have periods: "map (\<lambda>p. map cooldown (runes p)) (players ex7Rune) =
     [[3], [3], [4], [3], [3], [4], [3], [3]]"
    by code_simp
  have before: "map (\<lambda>p. map currentCooldown (runes p)) (players ex6) =
     [[0], [0], [0], [0], [0], [0], [0], [0]]"
    by code_simp
  have after: "map (\<lambda>p. map currentCooldown (runes p)) (players ex7Rune) =
     [[4], [0], [5], [0], [0], [0], [0], [0]]"
    by code_simp
  have alive: "isAlive exUser" by code_simp
  have mine: "''r0'' \<in> rune_id ` set (runes exUser)" by code_simp
  have p0: "players ex7Rune ! 0 \<in> set (players ex7Rune)" by code_simp
  have id0: "player_id (players ex7Rune ! 0) = player_id exUser" by code_simp
  have r0: "hd (runes (players ex7Rune ! 0)) \<in> set (runes (players ex7Rune ! 0))" by code_simp
  have rid0: "rune_id (hd (runes (players ex7Rune ! 0))) = ''r0''" by code_simp
  have user: "confirmNightAction ex6 exCastU7 exKillU5Rune = Done ex7Rune \<and>
      userPlayer ex6 = Some exUser \<and> isAlive exUser \<and>
      selectedActionTarget exCastU7 = Some ''u7'' \<and> ''u7'' \<noteq> [] \<and>
      activeActionType exCastU7 = RUNE \<and> selectedRuneId exCastU7 = Some ''r0'' \<and>
      ''r0'' \<noteq> [] \<and> ''r0'' \<in> rune_id ` set (runes exUser) \<and>
      players ex7Rune ! 0 \<in> set (players ex7Rune) \<and>
      player_id (players ex7Rune ! 0) = player_id exUser \<and>
      hd (runes (players ex7Rune ! 0)) \<in> set (runes (players ex7Rune ! 0)) \<and>
      rune_id (hd (runes (players ex7Rune ! 0))) = ''r0''"
    using ex6_night_rune ex6_user alive mine p0 id0 r0 rid0 by (simp add: exCastU7_def)
  have first: "currentCooldown (hd (runes (players ex7Rune ! 0))) =
      cooldown (hd (runes (players ex7Rune ! 0))) + 1"
    by (rule t [THEN conjunct2, THEN conjunct1, THEN spec, THEN spec, THEN spec, THEN spec,
        THEN spec, THEN spec, THEN spec, THEN spec, THEN mp, OF user])
  have p2: "players ex7Rune ! 2 \<in> set (players ex7Rune)" by code_simp
  have id2: "player_id (players ex7Rune ! 2) \<noteq> player_id exUser" by code_simp
  have ba: "find (\<lambda>a. playerId a = player_id (players ex7Rune ! 2)) (runeActions exKillU5Rune) =
      Some \<lparr>playerId = ''u2'', runeId = ''r2'', targetId = ''u2''\<rparr>"
    by code_simp
  have r2: "hd (runes (players ex7Rune ! 2)) \<in> set (runes (players ex7Rune ! 2))" by code_simp
  have rid2: "rune_id (hd (runes (players ex7Rune ! 2))) =
      runeId \<lparr>playerId = ''u2'', runeId = ''r2'', targetId = ''u2''\<rparr>"
    by code_simp
  have other: "confirmNightAction ex6 exCastU7 exKillU5Rune = Done ex7Rune \<and>
      userPlayer ex6 = Some exUser \<and>
      players ex7Rune ! 2 \<in> set (players ex7Rune) \<and>
      (player_id (players ex7Rune ! 2) \<noteq> player_id exUser \<or>
       userUsedRuneId (collected ex6 exUser exCastU7 exKillU5Rune) = None) \<and>
      find (\<lambda>a. playerId a = player_id (players ex7Rune ! 2)) (runeActions exKillU5Rune) =
        Some \<lparr>playerId = ''u2'', runeId = ''r2'', targetId = ''u2''\<rparr> \<and>
      hd (runes (players ex7Rune ! 2)) \<in> set (runes (players ex7Rune ! 2)) \<and>
      rune_id (hd (runes (players ex7Rune ! 2))) =
        runeId \<lparr>playerId = ''u2'', runeId = ''r2'', targetId = ''u2''\<rparr>"
    using ex6_night_rune ex6_user p2 id2 ba r2 rid2 by (intro conjI disjI1)
  have second: "currentCooldown (hd (runes (players ex7Rune ! 2))) =
      cooldown (hd (runes (players ex7Rune ! 2))) + 1"
    by (rule t [THEN conjunct2, THEN conjunct2, THEN spec, THEN spec, THEN spec, THEN spec,
        THEN spec, THEN spec, THEN spec, THEN mp, OF other])
  from reachable_ex6 ex6_night_rune ex6_user ids periods before after first second
  show ?thesis by (intro conjI)
qed

theorem consumed_rune_cooldown_counterexample:
  "reachable ex7 \<and>
   confirmNightAction ex6 exCastU7 exKillU5 = Done ex7 \<and>
   selectedRuneId exCastU7 = Some ''r0'' \<and>
   map rune_id (runes (players ex7 ! 0)) = [''r0''] \<and>
   map cooldown (runes (players ex7 ! 0)) = [3] \<and>
   map currentCooldown (runes (players ex7 ! 0)) = [4]"
proof -
  have "selectedRuneId exCastU7 = Some ''r0''" by (simp add: exCastU7_def)
  moreover have "map rune_id (runes (players ex7 ! 0)) = [''r0'']" by code_simp
  moreover have "map cooldown (runes (players ex7 ! 0)) = [3]" by code_simp
  moreover have "map currentCooldown (runes (players ex7 ! 0)) = [4]" by code_simp
  ultimately show ?thesis by (intro conjI reachable_ex7 ex6_night)
qed

section \<open>Facts about the knowledge map\<close>

lemma idRoles_markDead: "idRoles (markDead k ps) = idRoles ps"
  by (induction ps) (auto simp: idRoles_def)

lemma idRoles_nightDeaths: "idRoles (nightDeaths t ps) = idRoles ps"
  by (simp add: nightDeaths_def idRoles_markDead split: option.splits)

lemma idRoles_tickDown: "idRoles (tickDown ps) = idRoles ps"
  by (simp add: idRoles_def tickDown_def comp_def)

lemma idRoles_night: "idRoles (map (playerCooldown user used ras) ps) = idRoles ps"
  by (simp add: idRoles_def playerCooldown_id playerCooldown_role comp_def)

lemma idRoles_shownPlayers: "idRoles (shownPlayers s vc) = idRoles (players s)"
proof -
  have "idRoles (displayVotes vc (players s)) = idRoles (players s)"
    by (simp add: idRoles_def displayVotes_def comp_def)
  then show ?thesis
    by (simp add: shownPlayers_def execute_def idRoles_markDead split: option.splits)
qed

lemma idRoles_dayResolution: "idRoles (players (dayResolution s vc)) = idRoles (players s)"
proof -
  have "idRoles (resetVotes (shownPlayers s vc)) = idRoles (shownPlayers s vc)"
    by (simp add: idRoles_def resetVotes_def comp_def)
  then show ?thesis
    by (simp add: dayResolution_def setWinner_def idRoles_shownPlayers split: option.splits)
qed

lemma find_idRoles:
  "find (\<lambda>p. player_id p = t) ps = Some target \<Longrightarrow>
   map_of (idRoles ps) t = Some (role target) \<and> player_id target = t"
  by (induction ps) (auto simp: idRoles_def split: if_splits)

lemma reveal_grows:
  assumes "K \<subseteq>\<^sub>m map_of (idRoles ps)"
  shows "K \<subseteq>\<^sub>m (case find (\<lambda>p. player_id p = t) ps of
            None \<Rightarrow> K
          | Some target \<Rightarrow>
              if player_id target = ''__proto__'' then K
              else K(player_id target \<mapsto> role target)) \<and>
    (case find (\<lambda>p. player_id p = t) ps of
            None \<Rightarrow> K
          | Some target \<Rightarrow>
              if player_id target = ''__proto__'' then K
              else K(player_id target \<mapsto> role target)) \<subseteq>\<^sub>m map_of (idRoles ps)"
proof (cases "find (\<lambda>p. player_id p = t) ps")
  case None
  with assms show ?thesis by simp
next
  case (Some target)
  from find_idRoles [OF Some]
  have m: "map_of (idRoles ps) t = Some (role target)" and i: "player_id target = t" by simp_all
  have old: "K t = None \<or> K t = Some (role target)"
  proof (cases "K t")
    case None
    then show ?thesis by simp
  next
    case (Some r)
    then have "t \<in> dom K" by auto
    with assms have "K t = map_of (idRoles ps) t" by (simp add: map_le_def)
    with m show ?thesis by simp
  qed
  then have up: "K \<subseteq>\<^sub>m K(t \<mapsto> role target)"
    by (auto simp: map_le_def)
  from assms m have "K(t \<mapsto> role target) \<subseteq>\<^sub>m map_of (idRoles ps)"
    by (auto simp: map_le_def)
  with up assms Some i show ?thesis by simp
qed

lemma processReveals_grows:
  "K \<subseteq>\<^sub>m map_of (idRoles ps) \<Longrightarrow>
   K \<subseteq>\<^sub>m processReveals ps ts K \<and> processReveals ps ts K \<subseteq>\<^sub>m map_of (idRoles ps)"
proof (induction ts arbitrary: K)
  case Nil
  then show ?case by simp
next
  case (Cons t ts)
  define K1 where "K1 = (case find (\<lambda>p. player_id p = t) ps of
            None \<Rightarrow> K
          | Some target \<Rightarrow>
              if player_id target = ''__proto__'' then K
              else K(player_id target \<mapsto> role target))"
  from reveal_grows [OF Cons.prems, of t]
  have one: "K \<subseteq>\<^sub>m K1" and sound: "K1 \<subseteq>\<^sub>m map_of (idRoles ps)"
    by (simp_all only: K1_def)
  from Cons.IH [OF sound]
  have rest: "K1 \<subseteq>\<^sub>m processReveals ps ts K1"
    and sound': "processReveals ps ts K1 \<subseteq>\<^sub>m map_of (idRoles ps)"
    by simp_all
  have unfold: "processReveals ps (t # ts) K = processReveals ps ts K1"
    by (simp only: processReveals.simps K1_def)
  from one rest have "K \<subseteq>\<^sub>m processReveals ps ts K1" by (rule map_le_trans)
  with sound' show ?case by (simp only: unfold)
qed

lemma step_knowledge:
  assumes "step s s'"
    and "seerKnowledge s \<subseteq>\<^sub>m map_of (idRoles (players s))"
    and "phase s = SETUP \<longrightarrow> seerKnowledge s = Map.empty"
  shows "seerKnowledge s \<subseteq>\<^sub>m seerKnowledge s' \<and>
    seerKnowledge s' \<subseteq>\<^sub>m map_of (idRoles (players s')) \<and>
    phase s' \<noteq> SETUP"
  using assms(1)
proof cases
  case (start selectedRole rnd)
  with assms(3) show ?thesis by (simp add: startGame_def initialState_def)
next
  case night_intro
  with assms(2) show ?thesis by (simp add: nightIntro_def idRoles_tickDown)
next
  case (night_action sel botActions)
  from night_action(2) obtain user where s': "s' = nightResolution s user sel botActions"
    by (rule confirmNightAction_DoneE)
  from processReveals_grows [OF assms(2)] s' show ?thesis
    by (simp add: nightResolution_def idRoles_night)
next
  case day_intro
  with assms(2) show ?thesis
    by (cases "checkWinCondition (nightDeaths (targets s) (players s))")
       (simp_all add: processNightResults_def announce_def setWinner_def idRoles_nightDeaths)
next
  case day_discussion
  with assms(2) show ?thesis by (simp add: runDayDiscussion_def)
next
  case (day_voting sel dayActions)
  from day_voting(2) have s': "s' = dayResolution s (voteCounts s sel dayActions)"
    by (rule confirmVote_Done)
  have k: "seerKnowledge (dayResolution s vc) = seerKnowledge s" for vc
    by (simp add: dayResolution_def setWinner_def split: option.splits)
  have ph: "phase (dayResolution s vc) \<noteq> SETUP" for vc
    by (simp add: dayResolution_def setWinner_def split: option.splits)
  from assms(2) show ?thesis by (simp add: s' k ph idRoles_dayResolution)
qed

lemma reachable_knowledge:
  "reachable s \<Longrightarrow>
   seerKnowledge s \<subseteq>\<^sub>m map_of (idRoles (players s)) \<and>
   (phase s = SETUP \<longrightarrow> seerKnowledge s = Map.empty)"
proof (induction rule: reachable.induct)
  case initial
  then show ?case by (simp add: initialState_def)
next
  case (after_step s s')
  from step_knowledge [OF after_step(2)] after_step(3) show ?case by simp
next
  case (after_restart s s')
  from after_restart(2) show ?case
    by cases (simp add: resetGame_def initialState_def)
qed

text \<open>
  Claim C8. In a session, no operation other than the restart removes or changes an
  entry of the knowledge map: every handler that can run in a reachable state, the
  night resolution among them, leaves every entry that the map had.
\<close>

theorem knowledge_grows:
  assumes "reachable s" and "step s s'"
  shows "\<forall>p r. seerKnowledge s p = Some r \<longrightarrow> seerKnowledge s' p = Some r"
proof (intro allI impI)
  fix p r
  assume old: "seerKnowledge s p = Some r"
  from reachable_knowledge [OF assms(1)] step_knowledge [OF assms(2)]
  have "seerKnowledge s \<subseteq>\<^sub>m seerKnowledge s'" by simp
  moreover from old have "p \<in> dom (seerKnowledge s)" by auto
  ultimately have "seerKnowledge s' p = seerKnowledge s p" by (simp add: map_le_def)
  with old show "seerKnowledge s' p = Some r" by simp
qed

theorem knowledge_grows_witness:
  "reachable ex6 \<and> step ex6 ex7 \<and>
   seerKnowledge ex6 ''u1'' = Some WEREWOLF \<and> seerKnowledge ex6 ''u7'' = None \<and>
   seerKnowledge ex7 ''u1'' = Some WEREWOLF \<and> seerKnowledge ex7 ''u7'' = Some WEREWOLF"
proof -
  have st: "step ex6 ex7" using ex_phases(7) ex6_night by (rule step.night_action)
  have k1: "seerKnowledge ex6 ''u1'' = Some WEREWOLF" by code_simp
  have k2: "seerKnowledge ex6 ''u7'' = None" by code_simp
  have k3: "seerKnowledge ex7 ''u7'' = Some WEREWOLF" by code_simp
  from knowledge_grows [OF reachable_ex6 st, THEN spec, THEN spec, THEN mp, OF k1]
  have "seerKnowledge ex7 ''u1'' = Some WEREWOLF" .
  with reachable_ex6 st k1 k2 k3 show ?thesis by (intro conjI)
qed

section \<open>Facts about targets that name no alive participant\<close>

















end
